theory Spec2Isabelle
  imports Complex_Main
begin

section \<open>Python values used by the weather widget\<close>

text \<open>
  A Python \<open>str\<close> is a sequence of Unicode code points, and \<open>len\<close> counts code points.
  The model keeps that: a string is a list of code points, and \<open>ascii\<close> embeds an ASCII
  literal. Glyphs outside ASCII are written by their code points.
\<close>

type_synonym pystr = "nat list"

definition ascii :: "string \<Rightarrow> pystr" where
  "ascii s = map of_char s"

text \<open>
  A Python \<open>float\<close> by what it denotes: a finite number (\<open>FNum\<close>; the float \<open>0.0\<close> is
  \<open>FNum 0\<close>), the negative zero \<open>-0.0\<close>, an infinity, or NaN. The JSON decoder of Python
  reads \<open>NaN\<close>, \<open>Infinity\<close> and \<open>-Infinity\<close>, so all of them can stand in a payload.
\<close>

datatype pyfloat = FNum real | FNegZero | FInf | FNegInf | FNaN

text \<open>A scalar of the decoded JSON payload: \<open>null\<close>, an integer or a float.\<close>

datatype pyval = PNone | PInt int | PFloat pyfloat

datatype pyerr = KeyError | TypeError | ValueError | IndexError | OverflowError

text \<open>
  A step that may raise is a value of \<open>pyerr + 'a\<close>; \<open>and_then\<close> runs the rest of a block
  on the value of a step that did not raise.
\<close>

definition and_then :: "pyerr + 'a \<Rightarrow> ('a \<Rightarrow> pyerr + 'b) \<Rightarrow> pyerr + 'b" where
  "and_then x f = (case x of Inl e \<Rightarrow> Inl e | Inr v \<Rightarrow> f v)"

text \<open>
  The order of numbers. Python compares an \<open>int\<close> with a \<open>float\<close> by their exact values,
  so an integer operand is its value (\<open>num_val\<close>); \<open>None\<close> as an operand raises a TypeError.
  \<open>float_lt\<close> is \<open><\<close> and \<open>float_le\<close> is \<open><=\<close>: every comparison with NaN is false, the
  two zeros are equal, and the infinities lie beyond every finite number.
\<close>

fun num_val :: "pyval \<Rightarrow> pyerr + pyfloat" where
  "num_val PNone = Inl TypeError"
| "num_val (PInt i) = Inr (FNum (of_int i))"
| "num_val (PFloat f) = Inr f"

fun float_real :: "pyfloat \<Rightarrow> real" where
  "float_real (FNum r) = r"
| "float_real f = 0"

fun float_lt :: "pyfloat \<Rightarrow> pyfloat \<Rightarrow> bool" where
  "float_lt FNaN y = False"
| "float_lt x FNaN = False"
| "float_lt FNegInf y = (y \<noteq> FNegInf)"
| "float_lt x FNegInf = False"
| "float_lt FInf y = False"
| "float_lt x FInf = True"
| "float_lt x y = (float_real x < float_real y)"

definition float_le :: "pyfloat \<Rightarrow> pyfloat \<Rightarrow> bool" where
  "float_le x y = (x \<noteq> FNaN \<and> y \<noteq> FNaN \<and> \<not> float_lt y x)"

section \<open>Lookup tables\<close>

definition FG_HEADER :: pystr where
  "FG_HEADER = ascii ''#f4b8e4''"

definition FG_TEXT :: pystr where
  "FG_TEXT = ascii ''#ffffff''"

definition TEMP_COLORS :: "(int \<times> pystr) list" where
  "TEMP_COLORS =
    [(15, ascii ''#8caaee''),
     (18, ascii ''#85c1dc''),
     (21, ascii ''#99d1db''),
     (24, ascii ''#81c8be''),
     (27, ascii ''#a6d189''),
     (30, ascii ''#e5c890''),
     (32, ascii ''#ef9f76''),
     (33, ascii ''#ea999c''),
     (100, ascii ''#e78284'')]"

text \<open>
  \<open>temp_to_color\<close>: the \<open>for\<close> loop over the table returns at the first bound with
  \<open>temp <= t_max\<close>; when the loop runs out, the colour of the last entry is returned.
  \<open>temp_color_scan\<close> is the loop on numbers; \<open>temp_to_color\<close> adds the TypeError that the
  comparison raises on \<open>None\<close>.
\<close>

fun temp_color_scan :: "(int \<times> pystr) list \<Rightarrow> pyfloat \<Rightarrow> pystr option" where
  "temp_color_scan [] temp = None"
| "temp_color_scan ((t_max, color) # rest) temp =
     (if float_le temp (FNum (of_int t_max)) then Some color
      else temp_color_scan rest temp)"

definition temp_color :: "pyfloat \<Rightarrow> pystr" where
  "temp_color temp =
     (case temp_color_scan TEMP_COLORS temp of
        Some color \<Rightarrow> color
      | None \<Rightarrow> snd (last TEMP_COLORS))"

definition temp_to_color :: "pyval \<Rightarrow> pyerr + pystr" where
  "temp_to_color temp =
     (case num_val temp of Inl e \<Rightarrow> Inl e | Inr r \<Rightarrow> Inr (temp_color r))"

text \<open>
  \<open>WEATHER_MAP\<close> and \<open>SHORT_DESC_MAP\<close> are dictionaries with literal keys, kept as
  association lists in the order of the source. The icons are written by code points.
\<close>

definition WEATHER_MAP :: "(int \<times> pystr \<times> pystr) list" where
  "WEATHER_MAP =
    [(0, [0x2600, 0xFE0F], ascii ''Clear sky''),
     (1, [0x1F324, 0xFE0F], ascii ''Mainly clear''),
     (2, [0x26C5], ascii ''Partly cloudy''),
     (3, [0x2601, 0xFE0F], ascii ''Overcast''),
     (45, [0x1F32B, 0xFE0F], ascii ''Fog''),
     (48, [0x1F32B, 0xFE0F], ascii ''Depositing rime fog''),
     (51, [0x1F326, 0xFE0F], ascii ''Light drizzle''),
     (53, [0x1F326, 0xFE0F], ascii ''Moderate drizzle''),
     (55, [0x1F326, 0xFE0F], ascii ''Dense drizzle''),
     (61, [0x1F327, 0xFE0F], ascii ''Slight rain''),
     (63, [0x1F327, 0xFE0F], ascii ''Moderate rain''),
     (65, [0x1F327, 0xFE0F], ascii ''Heavy rain''),
     (66, [0x1F327, 0xFE0F], ascii ''Light freezing rain''),
     (67, [0x1F327, 0xFE0F], ascii ''Heavy freezing rain''),
     (71, [0x2744, 0xFE0F], ascii ''Slight snow''),
     (73, [0x2744, 0xFE0F], ascii ''Moderate snow''),
     (75, [0x2744, 0xFE0F], ascii ''Heavy snow''),
     (80, [0x1F326, 0xFE0F], ascii ''Slight rain showers''),
     (81, [0x1F327, 0xFE0F], ascii ''Moderate rain showers''),
     (82, [0x1F327, 0xFE0F], ascii ''Violent rain showers''),
     (95, [0x26C8, 0xFE0F], ascii ''Thunderstorm''),
     (96, [0x26C8, 0xFE0F], ascii ''Thunderstorm with hail (slight)''),
     (99, [0x26C8, 0xFE0F], ascii ''Thunderstorm with hail (severe)'')]"

definition SHORT_DESC_MAP :: "(pystr \<times> pystr) list" where
  "SHORT_DESC_MAP =
    [(ascii ''Slight rain showers'', ascii ''Slight rain''),
     (ascii ''Moderate rain showers'', ascii ''Moderate rain''),
     (ascii ''Violent rain showers'', ascii ''Heavy rain''),
     (ascii ''Thunderstorm with hail (slight)'', ascii ''Hail Storm''),
     (ascii ''Thunderstorm with hail (severe)'', ascii ''Severe Storm''),
     (ascii ''Light drizzle'', ascii ''Drizzle''),
     (ascii ''Moderate drizzle'', ascii ''Mod drizzle''),
     (ascii ''Dense drizzle'', ascii ''Dense drizzle''),
     (ascii ''Slight rain'', ascii ''Slight rain''),
     (ascii ''Moderate rain'', ascii ''Mod rain''),
     (ascii ''Heavy rain'', ascii ''Heavy rain''),
     (ascii ''Light freezing rain'', ascii ''Freezing rain''),
     (ascii ''Heavy freezing rain'', ascii ''Heavy freeze''),
     (ascii ''Slight snow'', ascii ''Snow''),
     (ascii ''Moderate snow'', ascii ''Mod snow''),
     (ascii ''Heavy snow'', ascii ''Heavy snow''),
     (ascii ''Clear sky'', ascii ''Clear''),
     (ascii ''Mainly clear'', ascii ''Mainly clear''),
     (ascii ''Partly cloudy'', ascii ''Part cloudy''),
     (ascii ''Overcast'', ascii ''Overcast''),
     (ascii ''Fog'', ascii ''Fog''),
     (ascii ''Depositing rime fog'', ascii ''Rime fog'')]"

text \<open>
  \<open>WEATHER_MAP.get(code, ...)\<close>: a dictionary with integer keys finds a float key that
  equals an integer (\<open>61.0\<close> finds \<open>61\<close>, and \<open>-0.0\<close> finds \<open>0\<close>); \<open>None\<close> and every other
  number miss.
\<close>

fun code_key :: "pyval \<Rightarrow> int option" where
  "code_key PNone = None"
| "code_key (PInt i) = Some i"
| "code_key (PFloat (FNum r)) = (if r = of_int \<lfloor>r\<rfloor> then Some \<lfloor>r\<rfloor> else None)"
| "code_key (PFloat FNegZero) = Some 0"
| "code_key (PFloat f) = None"

definition get_weather_info :: "pyval \<Rightarrow> pystr \<times> pystr" where
  "get_weather_info code =
     (case code_key code of
        None \<Rightarrow> ([0x2753], ascii ''Unknown'')
      | Some k \<Rightarrow>
          (case map_of WEATHER_MAP k of
             None \<Rightarrow> ([0x2753], ascii ''Unknown'')
           | Some entry \<Rightarrow> entry))"

definition get_short_desc :: "pystr \<Rightarrow> pystr" where
  "get_short_desc desc =
     (case map_of SHORT_DESC_MAP desc of None \<Rightarrow> desc | Some short \<Rightarrow> short)"

section \<open>Dates and times\<close>

text \<open>
  A naive \<open>datetime\<close>, as \<open>datetime.now()\<close> and \<open>datetime.fromisoformat\<close> give for the
  timestamps of the forecast service (which carry no UTC offset). \<open>date_of\<close> is
  \<open>.date()\<close>; \<open>dt_less\<close> is \<open><\<close> on two datetimes, the lexicographic order of the fields.
\<close>

record datetime =
  year :: nat
  month :: nat
  day :: nat
  hour :: nat
  minute :: nat
  second :: nat
  microsecond :: nat

type_synonym date = "nat \<times> nat \<times> nat"

definition date_of :: "datetime \<Rightarrow> date" where
  "date_of dt = (year dt, month dt, day dt)"

definition dt_key :: "datetime \<Rightarrow> nat list" where
  "dt_key dt = [year dt, month dt, day dt, hour dt, minute dt, second dt, microsecond dt]"

fun key_less :: "nat list \<Rightarrow> nat list \<Rightarrow> bool" where
  "key_less (a # as) (b # bs) = (a < b \<or> (a = b \<and> key_less as bs))"
| "key_less _ _ = False"

definition dt_less :: "datetime \<Rightarrow> datetime \<Rightarrow> bool" where
  "dt_less a b = key_less (dt_key a) (dt_key b)"

text \<open>\<open>dt >= now\<close>\<close>

definition dt_ge :: "datetime \<Rightarrow> datetime \<Rightarrow> bool" where
  "dt_ge a b = (\<not> dt_less a b)"

text \<open>Two decimal digits, as \<open>%H\<close>, \<open>%I\<close> and \<open>%M\<close> print a field.\<close>

definition two_digits :: "nat \<Rightarrow> pystr" where
  "two_digits n = [48 + (n div 10) mod 10, 48 + n mod 10]"

text \<open>\<open>strftime('%H:%M')\<close>\<close>

definition strftime_HM :: "datetime \<Rightarrow> pystr" where
  "strftime_HM dt = two_digits (hour dt) @ ascii '':'' @ two_digits (minute dt)"

text \<open>\<open>strftime('%I:%M %p')\<close>, in the C locale that a Python process starts in.\<close>

definition strftime_IMp :: "datetime \<Rightarrow> pystr" where
  "strftime_IMp dt =
     two_digits (if hour dt mod 12 = 0 then 12 else hour dt mod 12) @ ascii '':''
     @ two_digits (minute dt) @ ascii '' ''
     @ (if hour dt < 12 then ascii ''AM'' else ascii ''PM'')"

text \<open>
  \<open>weekday()\<close> from the proleptic Gregorian ordinal, Monday being 0, and the English
  names of \<open>calendar.day_name\<close> cut to three letters.
\<close>

definition is_leap :: "nat \<Rightarrow> bool" where
  "is_leap y = (y mod 4 = 0 \<and> (y mod 100 \<noteq> 0 \<or> y mod 400 = 0))"

definition days_before_month :: "nat \<Rightarrow> nat \<Rightarrow> nat" where
  "days_before_month y m =
     [0, 0, 31, 59, 90, 120, 151, 181, 212, 243, 273, 304, 334] ! (min m 12)
     + (if 2 < m \<and> is_leap y then 1 else 0)"

definition toordinal :: "date \<Rightarrow> nat" where
  "toordinal d =
     (case d of (y, m, dd) \<Rightarrow>
        (y - 1) * 365 + (y - 1) div 4 - (y - 1) div 100 + (y - 1) div 400
        + days_before_month y m + dd)"

definition weekday :: "date \<Rightarrow> nat" where
  "weekday d = (toordinal d + 6) mod 7"

definition day_abbr :: "nat \<Rightarrow> pystr" where
  "day_abbr w =
     [ascii ''Mon'', ascii ''Tue'', ascii ''Wed'', ascii ''Thu'', ascii ''Fri'',
      ascii ''Sat'', ascii ''Sun''] ! (w mod 7)"

text \<open>\<open>now.date() + timedelta(days=1)\<close>; the last day of year 9999 overflows.\<close>

definition days_in_month :: "nat \<Rightarrow> nat \<Rightarrow> nat" where
  "days_in_month y m =
     (if m = 2 then (if is_leap y then 29 else 28)
      else if m = 4 \<or> m = 6 \<or> m = 9 \<or> m = 11 then 30 else 31)"

definition next_day :: "date \<Rightarrow> pyerr + date" where
  "next_day d =
     (case d of (y, m, dd) \<Rightarrow>
        if dd < days_in_month y m then Inr (y, m, dd + 1)
        else if m < 12 then Inr (y, m + 1, 1)
        else if y < 9999 then Inr (y + 1, 1, 1)
        else Inl OverflowError)"

section \<open>The Python runtime\<close>

text \<open>
  Library functions whose results the widget only passes on are parameters of the model:
  \<open>datetime.fromisoformat\<close> (\<open>None\<close> stands for its ValueError), the text that \<open>str\<close> and
  the format \<open>.1f\<close> give for a float, the rounded sum of two floats, and the conversion
  of an integer to the nearest float (\<open>None\<close> stands for the OverflowError of an integer
  too large for a float).
\<close>

record runtime =
  fromisoformat :: "pystr \<Rightarrow> datetime option"
  float_repr :: "pyfloat \<Rightarrow> pystr"
  float_add :: "pyfloat \<Rightarrow> pyfloat \<Rightarrow> pyfloat"
  format_1f :: "pyfloat \<Rightarrow> pystr"
  float_of_int :: "int \<Rightarrow> pyfloat option"

text \<open>\<open>str\<close> of an integer: decimal digits, with a minus sign.\<close>

fun dec_nat :: "nat \<Rightarrow> pystr" where
  "dec_nat n = (if n < 10 then [48 + n] else dec_nat (n div 10) @ [48 + n mod 10])"

definition str_int :: "int \<Rightarrow> pystr" where
  "str_int i = (if i < 0 then 45 # dec_nat (nat (- i)) else dec_nat (nat i))"

fun py_str :: "runtime \<Rightarrow> pyval \<Rightarrow> pystr" where
  "py_str rt PNone = ascii ''None''"
| "py_str rt (PInt i) = str_int i"
| "py_str rt (PFloat f) = float_repr rt f"

definition rjust :: "nat \<Rightarrow> pystr \<Rightarrow> pystr" where
  "rjust w s = replicate (w - length s) 32 @ s"

definition ljust :: "nat \<Rightarrow> pystr \<Rightarrow> pystr" where
  "ljust w s = s @ replicate (w - length s) 32"

text \<open>The format \<open>{x:>2}\<close>: \<open>None\<close> rejects a format specification.\<close>

fun format_w2 :: "runtime \<Rightarrow> pyval \<Rightarrow> pyerr + pystr" where
  "format_w2 rt PNone = Inl TypeError"
| "format_w2 rt v = Inr (rjust 2 (py_str rt v))"

text \<open>
  The conversion of an integer operand to a float, which raises an OverflowError on an
  integer too large for a float.
\<close>

definition to_float :: "runtime \<Rightarrow> int \<Rightarrow> pyerr + pyfloat" where
  "to_float rt i = (case float_of_int rt i of None \<Rightarrow> Inl OverflowError | Some f \<Rightarrow> Inr f)"

text \<open>The format \<open>{x:.1f}\<close>; an integer is converted to a float first.\<close>

fun py_format_1f :: "runtime \<Rightarrow> pyval \<Rightarrow> pyerr + pystr" where
  "py_format_1f rt PNone = Inl TypeError"
| "py_format_1f rt (PInt i) = and_then (to_float rt i) (\<lambda>f. Inr (format_1f rt f))"
| "py_format_1f rt (PFloat f) = Inr (format_1f rt f)"

text \<open>
  \<open>a + b\<close>: exact on two integers; with a float, the integer operand is converted to a
  float and the sum is a float sum.
\<close>

fun py_add :: "runtime \<Rightarrow> pyval \<Rightarrow> pyval \<Rightarrow> pyerr + pyval" where
  "py_add rt PNone b = Inl TypeError"
| "py_add rt a PNone = Inl TypeError"
| "py_add rt (PInt i) (PInt j) = Inr (PInt (i + j))"
| "py_add rt (PInt i) (PFloat y) =
     and_then (to_float rt i) (\<lambda>x. Inr (PFloat (float_add rt x y)))"
| "py_add rt (PFloat x) (PInt j) =
     and_then (to_float rt j) (\<lambda>y. Inr (PFloat (float_add rt x y)))"
| "py_add rt (PFloat x) (PFloat y) = Inr (PFloat (float_add rt x y))"

text \<open>\<open>x > 0\<close>\<close>

definition py_gt0 :: "pyval \<Rightarrow> pyerr + bool" where
  "py_gt0 v = (case num_val v of Inl e \<Rightarrow> Inl e | Inr f \<Rightarrow> Inr (float_lt (FNum 0) f))"

text \<open>
  \<open>max(xs)\<close> on a non-empty list: the first element, replaced by each later element that
  is greater than the maximum so far.
\<close>

fun max_loop :: "pyval \<Rightarrow> pyval list \<Rightarrow> pyerr + pyval" where
  "max_loop m [] = Inr m"
| "max_loop m (x # xs) =
     (case num_val x of
        Inl e \<Rightarrow> Inl e
      | Inr rx \<Rightarrow>
          (case num_val m of
             Inl e \<Rightarrow> Inl e
           | Inr rm \<Rightarrow> if float_lt rm rx then max_loop x xs else max_loop m xs))"

fun py_max :: "pyval list \<Rightarrow> pyerr + pyval" where
  "py_max [] = Inl ValueError"
| "py_max (x # xs) = max_loop x xs"

text \<open>\<open>xs[i]\<close> for an index that is not negative.\<close>

definition py_index :: "'a list \<Rightarrow> nat \<Rightarrow> pyerr + 'a" where
  "py_index xs i = (if i < length xs then Inr (xs ! i) else Inl IndexError)"

text \<open>\<open>d[key]\<close> on a dictionary, the key being present or not.\<close>

definition py_item :: "'a option \<Rightarrow> pyerr + 'a" where
  "py_item entry = (case entry of None \<Rightarrow> Inl KeyError | Some v \<Rightarrow> Inr v)"

section \<open>The forecast payload\<close>

text \<open>
  The decoded JSON of the forecast service. Each dictionary is a record of its keys, a key
  that is absent being \<open>None\<close>; a series is an array of numbers and nulls, a time series
  an array of strings.
\<close>

record current_weather =
  c_temperature :: "pyval option"
  c_weathercode :: "pyval option"

record hourly =
  h_time :: "pystr list option"
  h_temperature_2m :: "pyval list option"
  h_apparent_temperature :: "pyval list option"
  h_weathercode :: "pyval list option"
  h_relativehumidity_2m :: "pyval list option"
  h_windspeed_10m :: "pyval list option"
  h_precipitation_probability :: "pyval list option"
  h_precipitation :: "pyval list option"

record daily =
  d_time :: "pystr list option"
  d_temperature_2m_max :: "pyval list option"
  d_temperature_2m_min :: "pyval list option"
  d_weathercode :: "pyval list option"

record payload =
  p_current_weather :: "current_weather option"
  p_hourly :: "hourly option"
  p_daily :: "daily option"

text \<open>\<open>d.get(key, [v] * len(times))\<close>\<close>

definition get_or_fill :: "pyval list option \<Rightarrow> pyval \<Rightarrow> nat \<Rightarrow> pyval list" where
  "get_or_fill entry v n = (case entry of None \<Rightarrow> replicate n v | Some arr \<Rightarrow> arr)"

section \<open>Extractor\<close>

text \<open>
  \<open>find_current_hour_index\<close>: \<open>find_hour_loop\<close> is the \<open>for i, t in enumerate(times)\<close>
  loop, \<open>i\<close> being the index of the head of the remaining list.
\<close>

fun find_hour_loop :: "runtime \<Rightarrow> datetime \<Rightarrow> pystr list \<Rightarrow> nat \<Rightarrow> pyerr + nat" where
  "find_hour_loop rt now [] i = Inr 0"
| "find_hour_loop rt now (t # ts) i =
     (case fromisoformat rt t of
        None \<Rightarrow> Inl ValueError
      | Some dt \<Rightarrow>
          if hour dt = hour now \<and> date_of dt = date_of now then Inr i
          else find_hour_loop rt now ts (Suc i))"

definition find_current_hour_index :: "runtime \<Rightarrow> pystr list \<Rightarrow> datetime \<Rightarrow> pyerr + nat" where
  "find_current_hour_index rt tms now = find_hour_loop rt now tms 0"

record weather =
  w_temp :: pyval
  w_code :: pyval
  w_feels_like :: pyval
  w_humidity :: pyval
  w_windspeed :: pyval

definition extract_current_weather :: "runtime \<Rightarrow> payload \<Rightarrow> datetime \<Rightarrow> pyerr + weather" where
  "extract_current_weather rt data now =
     and_then (py_item (p_current_weather data)) (\<lambda>current.
     and_then (py_item (p_hourly data)) (\<lambda>hourly.
     and_then (py_item (h_time hourly)) (\<lambda>tms.
     and_then (find_current_hour_index rt tms now) (\<lambda>idx.
     and_then (py_item (c_temperature current)) (\<lambda>temp.
     and_then (py_item (c_weathercode current)) (\<lambda>code.
     and_then (py_item (c_temperature current)) (\<lambda>fill.
     and_then (py_index (get_or_fill (h_apparent_temperature hourly) fill (length tms)) idx)
       (\<lambda>feels_like.
     and_then (py_index (get_or_fill (h_relativehumidity_2m hourly) (PInt 0) (length tms)) idx)
       (\<lambda>humidity.
     and_then (py_index (get_or_fill (h_windspeed_10m hourly) (PInt 0) (length tms)) idx)
       (\<lambda>windspeed.
     Inr \<lparr>w_temp = temp, w_code = code, w_feels_like = feels_like,
          w_humidity = humidity, w_windspeed = windspeed\<rparr>))))))))))"

section \<open>Formatter\<close>

text \<open>The markup \<open><span foreground='COLOR'>BODY</span>\<close> that the f-strings spell out.\<close>

definition span_fg :: "pystr \<Rightarrow> pystr \<Rightarrow> pystr" where
  "span_fg color body =
     ascii ''<span foreground='' @ [39] @ color @ [39] @ ascii ''>'' @ body @ ascii ''</span>''"

definition deg_C :: pystr where
  "deg_C = [0xB0, 67]"

definition build_current_section :: "runtime \<Rightarrow> weather \<Rightarrow> pystr \<Rightarrow> pyerr + pystr list" where
  "build_current_section rt weather location_name =
     (let icon = fst (get_weather_info (w_code weather));
          desc = snd (get_weather_info (w_code weather));
          temp = w_temp weather;
          feels_like = w_feels_like weather
      in and_then (temp_to_color temp) (\<lambda>temp_color.
         and_then (temp_to_color feels_like) (\<lambda>feels_color.
         Inr [[0x1F321, 0xFE0F] @ ascii '' '' @ span_fg temp_color (py_str rt temp @ deg_C)
                @ ascii '' (Feels like '' @ span_fg feels_color (py_str rt feels_like @ deg_C)
                @ ascii '')'',
              icon @ ascii '' '' @ desc,
              [0x1F4A7] @ ascii '' Humidity: '' @ py_str rt (w_humidity weather) @ ascii ''%'',
              [0x1F32C, 0xFE0F] @ ascii '' Wind Speed: '' @ py_str rt (w_windspeed weather)
                @ ascii '' km/h''])))"

text \<open>
  \<open>build_today_rain_info\<close>. \<open>rain_loop\<close> is the loop over the zipped arrays; its state is
  \<open>(rain_probs, rain_start_time, precip_total)\<close>.
\<close>

type_synonym rain_state = "pyval list \<times> datetime option \<times> pyval"

fun rain_loop ::
  "runtime \<Rightarrow> datetime \<Rightarrow> (pystr \<times> pyval \<times> pyval) list \<Rightarrow> rain_state \<Rightarrow> pyerr + rain_state"
where
  "rain_loop rt now [] st = Inr st"
| "rain_loop rt now ((t, prob, precip) # rest) (rain_probs, rain_start_time, precip_total) =
     (case fromisoformat rt t of
        None \<Rightarrow> Inl ValueError
      | Some dt \<Rightarrow>
          if date_of dt = date_of now \<and> dt_ge dt now then
            and_then (py_add rt precip_total precip) (\<lambda>total.
            and_then (py_gt0 prob) (\<lambda>positive.
              rain_loop rt now rest
                (rain_probs @ [prob],
                 if positive \<and> rain_start_time = None then Some dt else rain_start_time,
                 total)))
          else rain_loop rt now rest (rain_probs, rain_start_time, precip_total))"

definition rain_lines :: "runtime \<Rightarrow> rain_state \<Rightarrow> pyerr + pystr list" where
  "rain_lines rt st =
     (case st of (rain_probs, rain_start_time, precip_total) \<Rightarrow>
        if rain_probs = [] then Inr []
        else
          and_then (py_max rain_probs) (\<lambda>top.
          and_then (py_gt0 top) (\<lambda>positive.
            if positive then
              and_then (py_format_1f rt precip_total) (\<lambda>total.
              Inr [[0x1F327, 0xFE0F] @ ascii '' Chance of rain today: ''
                     @ span_fg FG_TEXT (py_str rt top @ ascii ''%''),
                   (case rain_start_time of
                      Some dt \<Rightarrow>
                        [0x23F1, 0xFE0F] @ ascii '' Expected rain start: '' @ strftime_IMp dt
                    | None \<Rightarrow>
                        [0x23F1, 0xFE0F] @ ascii '' Expected rain start: None predicted''),
                   [0x2614] @ ascii '' Total predicted rain: '' @ total @ ascii '' mm'',
                   []])
            else Inr [])))"

definition build_today_rain_info :: "runtime \<Rightarrow> hourly \<Rightarrow> datetime \<Rightarrow> pyerr + pystr list" where
  "build_today_rain_info rt hourly now =
     and_then (py_item (h_time hourly)) (\<lambda>tms.
       (let rain_arr = get_or_fill (h_precipitation_probability hourly) (PInt 0) (length tms);
            precip_arr = get_or_fill (h_precipitation hourly) (PInt 0) (length tms)
        in and_then (rain_loop rt now (zip tms (zip rain_arr precip_arr)) ([], None, PInt 0))
             (rain_lines rt)))"

text \<open>
  \<open>build_hourly_forecast\<close>. \<open>hourly_line\<close> is the body of the loop after the two
  \<open>continue\<close> tests, \<open>hourly_loop\<close> the loop, with \<open>lines\<close> as its state.
\<close>

definition hourly_line :: "runtime \<Rightarrow> datetime \<Rightarrow> pyval \<Rightarrow> pyval \<Rightarrow> pyerr + pystr" where
  "hourly_line rt dt temp code =
     (let hour = strftime_HM dt;
          icon = fst (get_weather_info code);
          short_desc = get_short_desc (snd (get_weather_info code))
      in and_then (temp_to_color temp) (\<lambda>color.
         and_then (format_w2 rt temp) (\<lambda>shown.
         Inr (hour @ ascii '' - '' @ span_fg color (shown @ deg_C) @ ascii '' '' @ icon
              @ ascii '' '' @ short_desc))))"

fun hourly_loop ::
  "runtime \<Rightarrow> datetime \<Rightarrow> date \<Rightarrow> (pystr \<times> pyval \<times> pyval) list \<Rightarrow> pystr list
   \<Rightarrow> pyerr + pystr list"
where
  "hourly_loop rt now for_date [] lines = Inr lines"
| "hourly_loop rt now for_date ((t, temp, code) # rest) lines =
     (case fromisoformat rt t of
        None \<Rightarrow> Inl ValueError
      | Some dt \<Rightarrow>
          if date_of dt \<noteq> for_date then hourly_loop rt now for_date rest lines
          else if for_date = date_of now \<and> dt_less dt now
            then hourly_loop rt now for_date rest lines
          else and_then (hourly_line rt dt temp code) (\<lambda>line.
                 hourly_loop rt now for_date rest (lines @ [line])))"

definition build_hourly_forecast ::
  "runtime \<Rightarrow> hourly \<Rightarrow> datetime \<Rightarrow> date \<Rightarrow> pyerr + pystr list"
where
  "build_hourly_forecast rt hourly now for_date =
     and_then (py_item (h_time hourly)) (\<lambda>tms.
     and_then (py_item (h_temperature_2m hourly)) (\<lambda>temps.
     and_then (py_item (h_weathercode hourly)) (\<lambda>codes.
     and_then (hourly_loop rt now for_date (zip tms (zip temps codes)) []) (\<lambda>lines.
     Inr (if lines \<noteq> [] then lines else [ascii ''Hourly forecast unavailable''])))))"

text \<open>\<open>build_tomorrow_forecast\<close>\<close>

definition TIME_LABELS :: "(nat \<times> pystr) list" where
  "TIME_LABELS =
     [(6, ascii ''Morning''), (12, ascii ''Midday''), (15, ascii ''Afternoon''),
      (18, ascii ''Evening'')]"

definition label_width :: nat where
  "label_width = fold max (map (\<lambda>kv. length (snd kv)) TIME_LABELS) 0"

definition tomorrow_line :: "runtime \<Rightarrow> pystr \<Rightarrow> pyval \<Rightarrow> pyval \<Rightarrow> pyerr + pystr" where
  "tomorrow_line rt label temp code =
     (let icon = fst (get_weather_info code);
          short_desc = get_short_desc (snd (get_weather_info code))
      in and_then (temp_to_color temp) (\<lambda>color.
         and_then (format_w2 rt temp) (\<lambda>shown.
         Inr (ljust label_width label @ ascii '' - '' @ span_fg color (shown @ deg_C)
              @ ascii '' '' @ icon @ ascii '' '' @ short_desc))))"

fun tomorrow_loop ::
  "runtime \<Rightarrow> date \<Rightarrow> (pystr \<times> pyval \<times> pyval) list \<Rightarrow> pystr list \<Rightarrow> pyerr + pystr list"
where
  "tomorrow_loop rt tomorrow [] lines = Inr lines"
| "tomorrow_loop rt tomorrow ((t, temp, code) # rest) lines =
     (case fromisoformat rt t of
        None \<Rightarrow> Inl ValueError
      | Some dt \<Rightarrow>
          if date_of dt \<noteq> tomorrow then tomorrow_loop rt tomorrow rest lines
          else
            (case map_of TIME_LABELS (hour dt) of
               None \<Rightarrow> tomorrow_loop rt tomorrow rest lines
             | Some label \<Rightarrow>
                 if label = [] then tomorrow_loop rt tomorrow rest lines
                 else and_then (tomorrow_line rt label temp code) (\<lambda>line.
                        tomorrow_loop rt tomorrow rest (lines @ [line]))))"

definition build_tomorrow_forecast :: "runtime \<Rightarrow> hourly \<Rightarrow> date \<Rightarrow> pyerr + pystr list" where
  "build_tomorrow_forecast rt hourly tomorrow =
     and_then (py_item (h_time hourly)) (\<lambda>tms.
     and_then (py_item (h_temperature_2m hourly)) (\<lambda>temps.
     and_then (py_item (h_weathercode hourly)) (\<lambda>codes.
     and_then (tomorrow_loop rt tomorrow (zip tms (zip temps codes)) []) (\<lambda>lines.
     Inr (if lines \<noteq> [] then lines else [ascii ''Tomorrow forecast unavailable''])))))"

text \<open>
  \<open>build_daily_forecast\<close>. \<open>daily_line\<close> is the body of the loop at index \<open>i\<close>,
  \<open>daily_loop\<close> the loop over the indices of \<open>range(1, min(days + 1, len(dates)))\<close>.
\<close>

definition daily_line ::
  "runtime \<Rightarrow> pystr list \<Rightarrow> pyval list \<Rightarrow> pyval list \<Rightarrow> pyval list \<Rightarrow> nat \<Rightarrow> pyerr + pystr"
where
  "daily_line rt dates max_temps min_temps codes i =
     and_then (py_index dates i) (\<lambda>d.
     and_then (case fromisoformat rt d of None \<Rightarrow> Inl ValueError | Some dt \<Rightarrow> Inr dt) (\<lambda>dt.
     and_then (py_index codes i) (\<lambda>code.
       (let day_name = day_abbr (weekday (date_of dt));
            icon = fst (get_weather_info code);
            short_desc = get_short_desc (snd (get_weather_info code))
        in and_then (py_index max_temps i) (\<lambda>hi.
           and_then (temp_to_color hi) (\<lambda>hi_color.
           and_then (format_w2 rt hi) (\<lambda>hi_shown.
           and_then (py_index min_temps i) (\<lambda>lo.
           and_then (temp_to_color lo) (\<lambda>lo_color.
           and_then (format_w2 rt lo) (\<lambda>lo_shown.
           Inr (ljust 3 day_name @ ascii '' ''
                @ [0x2B06, 0xFE0F] @ span_fg hi_color (hi_shown @ deg_C) @ ascii '' ''
                @ [0x2B07, 0xFE0F] @ span_fg lo_color (lo_shown @ deg_C) @ ascii '' ''
                @ icon @ ascii '' '' @ short_desc)))))))))))"

fun daily_loop ::
  "runtime \<Rightarrow> pystr list \<Rightarrow> pyval list \<Rightarrow> pyval list \<Rightarrow> pyval list \<Rightarrow> nat list \<Rightarrow> pystr list
   \<Rightarrow> pyerr + pystr list"
where
  "daily_loop rt dates max_temps min_temps codes [] lines = Inr lines"
| "daily_loop rt dates max_temps min_temps codes (i # rest) lines =
     and_then (daily_line rt dates max_temps min_temps codes i) (\<lambda>line.
       daily_loop rt dates max_temps min_temps codes rest (lines @ [line]))"

definition py_range :: "int \<Rightarrow> int \<Rightarrow> nat list" where
  "py_range lo hi = [nat lo ..< nat hi]"

definition build_daily_forecast :: "runtime \<Rightarrow> daily \<Rightarrow> int \<Rightarrow> pyerr + pystr list" where
  "build_daily_forecast rt daily days =
     and_then (py_item (d_time daily)) (\<lambda>dates.
     and_then (py_item (d_temperature_2m_max daily)) (\<lambda>max_temps.
     and_then (py_item (d_temperature_2m_min daily)) (\<lambda>min_temps.
     and_then (py_item (d_weathercode daily)) (\<lambda>codes.
       daily_loop rt dates max_temps min_temps codes
         (py_range 1 (min (days + 1) (int (length dates)))) []))))"

section \<open>Renderer\<close>

text \<open>
  \<open>re.sub(r"<.*?>", "", line)\<close>: a \<open><\<close> opens a tag when a \<open>>\<close> follows it before any
  newline (which \<open>.\<close> does not match); the tag runs to the first such \<open>>\<close> and is dropped.
  \<open>tag_closes\<close> looks for that \<open>>\<close>; the flag of \<open>strip_scan\<close> tells whether the scan is
  inside a tag.
\<close>

fun tag_closes :: "pystr \<Rightarrow> bool" where
  "tag_closes [] = False"
| "tag_closes (c # cs) = (if c = 62 then True else if c = 10 then False else tag_closes cs)"

fun strip_scan :: "bool \<Rightarrow> pystr \<Rightarrow> pystr" where
  "strip_scan in_tag [] = []"
| "strip_scan True (c # cs) = (if c = 62 then strip_scan False cs else strip_scan True cs)"
| "strip_scan False (c # cs) =
     (if c = 60 \<and> tag_closes cs then strip_scan True cs else c # strip_scan False cs)"

definition strip_tags :: "pystr \<Rightarrow> pystr" where
  "strip_tags line = strip_scan False line"

text \<open>\<open>max(..., default=0)\<close> over lengths, which are never negative.\<close>

definition max_line_length :: "pystr list \<Rightarrow> nat" where
  "max_line_length lines = fold max (map (\<lambda>line. length (strip_tags line)) lines) 0"

definition span_font9 :: "pystr \<Rightarrow> pystr \<Rightarrow> pystr" where
  "span_font9 color body =
     ascii ''<span foreground='' @ [39] @ color @ [39] @ ascii '' font='' @ [39] @ ascii ''9''
     @ [39] @ ascii ''>'' @ body @ ascii ''</span>''"

definition render_section :: "pystr list \<Rightarrow> pystr \<Rightarrow> nat \<Rightarrow> pystr list" where
  "render_section lines heading max_len =
     [span_font9 FG_HEADER heading,
      span_fg (ascii ''#ffffff'') (replicate max_len 0x2500)]
     @ map (span_font9 FG_TEXT) lines
     @ [[]]"

fun py_join :: "pystr \<Rightarrow> pystr list \<Rightarrow> pystr" where
  "py_join sep [] = []"
| "py_join sep [x] = x"
| "py_join sep (x # y # rest) = x @ sep @ py_join sep (y # rest)"

definition build_tooltip :: "(pystr list \<times> pystr) list \<Rightarrow> nat \<Rightarrow> pystr" where
  "build_tooltip sections max_len =
     py_join [10]
       (fold (\<lambda>section tooltip_lines.
                tooltip_lines @ render_section (fst section) (snd section) max_len)
          sections [])"

text \<open>
  \<open>json.dumps\<close> of a dictionary of strings. With \<open>ensure_ascii\<close> every character outside
  the printable ASCII range is escaped, beyond the basic plane as a surrogate pair;
  without it only the quote, the backslash and the control characters are. The
  backslash is code point 92, the quote 34.
\<close>

definition hex_digit :: "nat \<Rightarrow> nat" where
  "hex_digit d = (if d < 10 then 48 + d else 87 + d)"

definition hex4 :: "nat \<Rightarrow> pystr" where
  "hex4 n =
     [hex_digit ((n div 4096) mod 16), hex_digit ((n div 256) mod 16),
      hex_digit ((n div 16) mod 16), hex_digit (n mod 16)]"

definition json_escape_char :: "bool \<Rightarrow> nat \<Rightarrow> pystr" where
  "json_escape_char ensure_ascii c =
     (if c = 34 then [92, 34]
      else if c = 92 then [92, 92]
      else if c = 10 then [92, 110]
      else if c = 13 then [92, 114]
      else if c = 9 then [92, 116]
      else if c = 8 then [92, 98]
      else if c = 12 then [92, 102]
      else if c < 32 then [92, 117] @ hex4 c
      else if \<not> ensure_ascii \<or> c < 127 then [c]
      else if c < 65536 then [92, 117] @ hex4 c
      else [92, 117] @ hex4 (55296 + ((c - 65536) div 1024) mod 1024)
           @ [92, 117] @ hex4 (56320 + (c - 65536) mod 1024))"

definition json_string :: "bool \<Rightarrow> pystr \<Rightarrow> pystr" where
  "json_string ensure_ascii s = [34] @ concat (map (json_escape_char ensure_ascii) s) @ [34]"

definition json_dumps :: "bool \<Rightarrow> (pystr \<times> pystr) list \<Rightarrow> pystr" where
  "json_dumps ensure_ascii obj =
     ascii ''{''
     @ py_join (ascii '', '')
         (map (\<lambda>kv. json_string ensure_ascii (fst kv) @ ascii '': ''
                      @ json_string ensure_ascii (snd kv)) obj)
     @ ascii ''}''"

section \<open>The outside world of one run\<close>

text \<open>
  What the three \<open>requests.get\<close> calls and \<open>datetime.now()\<close> give during one run. A call
  either raises (\<open>Inl\<close>, with the text of the exception) or returns a response;
  \<open>raise_for_status\<close> raises on a response with \<open>status_error\<close>, and \<open>.json()\<close> raises on a
  body that is not JSON. The second and third call depend on the URL asked for.
\<close>

record 'a response =
  status_error :: "pystr option"
  json_body :: "pystr + 'a"

record geo_data =
  g_lat :: "pyval option"
  g_lon :: "pyval option"
  g_city :: "pystr option"

record world =
  checkip :: "pystr + pystr"
  ip_api :: "pystr \<Rightarrow> pystr + geo_data response"
  open_meteo :: "pystr \<Rightarrow> pystr + payload response"
  clock :: datetime

text \<open>
  The end of the process: the text on standard output with the exit status, or an
  exception that nothing caught (the interpreter then prints a traceback on standard
  error, nothing on standard output, and the status is 1).
\<close>

datatype outcome = Exited pystr int | Uncaught pyerr

section \<open>Locator\<close>

text \<open>\<open>str.strip()\<close>: the white space of Unicode is removed at both ends.\<close>

definition is_space :: "nat \<Rightarrow> bool" where
  "is_space c =
     ((9 \<le> c \<and> c \<le> 13) \<or> (28 \<le> c \<and> c \<le> 32) \<or> c = 133 \<or> c = 160 \<or> c = 5760
      \<or> (8192 \<le> c \<and> c \<le> 8202) \<or> c = 8232 \<or> c = 8233 \<or> c = 8239 \<or> c = 8287
      \<or> c = 12288)"

definition py_strip :: "pystr \<Rightarrow> pystr" where
  "py_strip s = rev (dropWhile is_space (rev (dropWhile is_space s)))"

text \<open>
  \<open>get_location_by_ip\<close>: \<open>location_try\<close> is the body of the \<open>try\<close>, any exception of
  which is \<open>Inl\<close>; the \<open>except\<close> clause replaces it by the fallback.
\<close>

definition location_try :: "world \<Rightarrow> pystr + (pyval \<times> pyval \<times> pystr)" where
  "location_try w =
     (case checkip w of
        Inl e \<Rightarrow> Inl e
      | Inr text \<Rightarrow>
          (let ip = py_strip text in
           case ip_api w (ascii ''http://ip-api.com/json/'' @ ip) of
             Inl e \<Rightarrow> Inl e
           | Inr r \<Rightarrow>
               (case status_error r of
                  Some e \<Rightarrow> Inl e
                | None \<Rightarrow>
                    (case json_body r of
                       Inl e \<Rightarrow> Inl e
                     | Inr data \<Rightarrow>
                         (case g_lat data of
                            None \<Rightarrow> Inl ([39] @ ascii ''lat'' @ [39])
                          | Some lat \<Rightarrow>
                              (case g_lon data of
                                 None \<Rightarrow> Inl ([39] @ ascii ''lon'' @ [39])
                               | Some lon \<Rightarrow>
                                   Inr (lat, lon,
                                        (case g_city data of
                                           None \<Rightarrow> ascii ''Your Location''
                                         | Some city \<Rightarrow> city))))))))"

definition get_location_by_ip :: "world \<Rightarrow> pyval \<times> pyval \<times> pystr" where
  "get_location_by_ip w =
     (case location_try w of
        Inl e \<Rightarrow> (PFloat (FNum 0), PFloat (FNum 0), ascii ''Your Location'')
      | Inr found \<Rightarrow> found)"

section \<open>Fetcher\<close>

definition build_api_url :: "runtime \<Rightarrow> pyval \<Rightarrow> pyval \<Rightarrow> pystr" where
  "build_api_url rt lat lon =
     ascii ''https://api.open-meteo.com/v1/forecast?''
     @ ascii ''latitude='' @ py_str rt lat @ ascii ''&longitude='' @ py_str rt lon
     @ ascii ''&current_weather=true''
     @ ascii ''&hourly=temperature_2m,apparent_temperature,weathercode,''
     @ ascii ''relativehumidity_2m,windspeed_10m,precipitation_probability,precipitation''
     @ ascii ''&daily=temperature_2m_max,temperature_2m_min,weathercode,precipitation_sum''
     @ ascii ''&timezone=auto''"

text \<open>\<open>fail\<close> prints the fallback object and ends the process with \<open>sys.exit(0)\<close>.\<close>

definition fail :: "pystr \<Rightarrow> outcome" where
  "fail msg =
     Exited
       (json_dumps True
          [(ascii ''text'', ascii ''N/A''), (ascii ''tooltip'', span_fg FG_HEADER msg)]
        @ [10])
       0"

text \<open>
  \<open>fetch_weather_data\<close>: the payload, or the end of the process inside \<open>fail\<close>.
  \<open>fetch_try\<close> is the body of the \<open>try\<close>.
\<close>

definition fetch_try :: "world \<Rightarrow> pystr \<Rightarrow> pystr + payload" where
  "fetch_try w url =
     (case open_meteo w url of
        Inl e \<Rightarrow> Inl e
      | Inr r \<Rightarrow>
          (case status_error r of
             Some e \<Rightarrow> Inl e
           | None \<Rightarrow> json_body r))"

definition fetch_weather_data :: "world \<Rightarrow> pystr \<Rightarrow> outcome + payload" where
  "fetch_weather_data w url =
     (case fetch_try w url of
        Inl e \<Rightarrow> Inl (fail (ascii ''Failed to fetch weather: '' @ e))
      | Inr data \<Rightarrow> Inr data)"

section \<open>Entry point\<close>

definition DAYS_FORECAST :: int where
  "DAYS_FORECAST = 5"

text \<open>
  The part of \<open>main\<close> after the \<open>try\<close> around \<open>extract_current_weather\<close>, up to the text
  that is printed; no exception of it is caught.
\<close>

definition main_render ::
  "runtime \<Rightarrow> payload \<Rightarrow> datetime \<Rightarrow> date \<Rightarrow> weather \<Rightarrow> pystr \<Rightarrow> pyerr + pystr"
where
  "main_render rt data now tomorrow weather location_name =
     (let icon = fst (get_weather_info (w_code weather)) in
      and_then (temp_to_color (w_temp weather)) (\<lambda>color.
        (let text = ascii '' | '' @ icon @ ascii '' ''
                    @ span_fg color (py_str rt (w_temp weather) @ deg_C) in
         and_then (py_item (p_hourly data)) (\<lambda>hourly.
         and_then (py_item (p_daily data)) (\<lambda>daily.
         and_then (build_current_section rt weather location_name) (\<lambda>current_lines.
         and_then (build_today_rain_info rt hourly now) (\<lambda>rain_lines.
         and_then (build_hourly_forecast rt hourly now (date_of now)) (\<lambda>hour_lines.
         and_then (build_tomorrow_forecast rt hourly tomorrow) (\<lambda>tomorrow_lines.
         and_then (build_daily_forecast rt daily DAYS_FORECAST) (\<lambda>daily_lines.
           (let today_lines = rain_lines @ hour_lines;
                all_lines = current_lines @ today_lines @ tomorrow_lines @ daily_lines;
                headings =
                  [[0x1F30D] @ ascii '' Current Weather - '' @ location_name,
                   [0x2600, 0xFE0F] @ ascii '' Today Forecast:'',
                   [0x26C5] @ ascii '' Tomorrow Forecast:'',
                   [0x1F4C5] @ ascii '' Upcoming '' @ str_int DAYS_FORECAST
                     @ ascii ''-day Forecast:''];
                max_len = max_line_length (all_lines @ headings);
                sections =
                  [(current_lines, [0x1F30D] @ ascii '' Current Weather - '' @ location_name),
                   (today_lines, [0x2600, 0xFE0F] @ ascii '' Today Forecast:''),
                   (tomorrow_lines, [0x26C5] @ ascii '' Tomorrow Forecast:''),
                   (daily_lines, [0x1F4C5] @ ascii '' Upcoming '' @ str_int DAYS_FORECAST
                      @ ascii ''-day Forecast:'')];
                tooltip = build_tooltip sections max_len
            in Inr (json_dumps False
                      [(ascii ''text'', text), (ascii ''tooltip'', tooltip),
                       (ascii ''markup'', ascii ''pango'')]))))))))))))"

definition main :: "runtime \<Rightarrow> world \<Rightarrow> outcome" where
  "main rt w =
     (case get_location_by_ip w of (lat, lon, location_name) \<Rightarrow>
        (let url = build_api_url rt lat lon in
         case fetch_weather_data w url of
           Inl ended \<Rightarrow> ended
         | Inr data \<Rightarrow>
             (let now = clock w in
              case next_day (date_of now) of
                Inl e \<Rightarrow> Uncaught e
              | Inr tomorrow \<Rightarrow>
                  (case extract_current_weather rt data now of
                     Inl e \<Rightarrow> fail (ascii ''Failed to parse current weather'')
                   | Inr weather \<Rightarrow>
                       (case main_render rt data now tomorrow weather location_name of
                          Inl e \<Rightarrow> Uncaught e
                        | Inr printed \<Rightarrow> Exited (printed @ [10]) 0)))))"

section \<open>A runtime for the examples\<close>

text \<open>
  \<open>parse_iso\<close> reads the two shapes of timestamp that the forecast service sends,
  \<open>YYYY-MM-DD\<close> and \<open>YYYY-MM-DDTHH:MM\<close>, and rejects everything else. The float functions
  of \<open>example_runtime\<close> leave the rounding out: they are right on the floats and integers
  of small integer value, the only ones the examples print, add or convert.
\<close>

definition digit_val :: "nat \<Rightarrow> nat option" where
  "digit_val c = (if 48 \<le> c \<and> c \<le> 57 then Some (c - 48) else None)"

fun parse_digits :: "pystr \<Rightarrow> nat \<Rightarrow> nat option" where
  "parse_digits [] acc = Some acc"
| "parse_digits (c # cs) acc =
     (case digit_val c of None \<Rightarrow> None | Some d \<Rightarrow> parse_digits cs (10 * acc + d))"

definition parse_date :: "pystr \<Rightarrow> date option" where
  "parse_date s =
     (if length s = 10 \<and> s ! 4 = 45 \<and> s ! 7 = 45 then
        (case (parse_digits (take 4 s) 0, parse_digits (take 2 (drop 5 s)) 0,
               parse_digits (drop 8 s) 0) of
           (Some y, Some m, Some d) \<Rightarrow>
             if 1 \<le> y \<and> 1 \<le> m \<and> m \<le> 12 \<and> 1 \<le> d \<and> d \<le> days_in_month y m
             then Some (y, m, d) else None
         | _ \<Rightarrow> None)
      else None)"

definition parse_iso :: "pystr \<Rightarrow> datetime option" where
  "parse_iso s =
     (case parse_date (take 10 s) of
        None \<Rightarrow> None
      | Some (y, m, d) \<Rightarrow>
          if length s = 10 then
            Some \<lparr>year = y, month = m, day = d, hour = 0, minute = 0, second = 0,
                  microsecond = 0\<rparr>
          else if length s = 16 \<and> s ! 10 = 84 \<and> s ! 13 = 58 then
            (case (parse_digits (take 2 (drop 11 s)) 0, parse_digits (drop 14 s) 0) of
               (Some h, Some mi) \<Rightarrow>
                 if h < 24 \<and> mi < 60 then
                   Some \<lparr>year = y, month = m, day = d, hour = h, minute = mi, second = 0,
                         microsecond = 0\<rparr>
                 else None
             | _ \<Rightarrow> None)
          else None)"

fun example_float_text :: "pyfloat \<Rightarrow> pystr" where
  "example_float_text (FNum r) = str_int \<lfloor>r\<rfloor> @ ascii ''.0''"
| "example_float_text FNegZero = ascii ''-0.0''"
| "example_float_text FInf = ascii ''inf''"
| "example_float_text FNegInf = ascii ''-inf''"
| "example_float_text FNaN = ascii ''nan''"

fun example_float_add :: "pyfloat \<Rightarrow> pyfloat \<Rightarrow> pyfloat" where
  "example_float_add FNaN y = FNaN"
| "example_float_add x FNaN = FNaN"
| "example_float_add FInf y = (if y = FNegInf then FNaN else FInf)"
| "example_float_add x FInf = (if x = FNegInf then FNaN else FInf)"
| "example_float_add FNegInf y = FNegInf"
| "example_float_add x FNegInf = FNegInf"
| "example_float_add FNegZero y = y"
| "example_float_add x FNegZero = x"
| "example_float_add (FNum a) (FNum b) = FNum (a + b)"

definition example_runtime :: runtime where
  "example_runtime =
     \<lparr>fromisoformat = parse_iso,
      float_repr = example_float_text,
      float_add = example_float_add,
      format_1f = example_float_text,
      float_of_int = (\<lambda>i. if \<bar>i\<bar> < 2 ^ 1024 - 2 ^ 970 then Some (FNum (of_int i)) else None)\<rparr>"

section \<open>Example inputs\<close>

text \<open>
  A run on the first of May 2024 at 13:20, with six hourly rows (four of today, two of
  tomorrow, the wind speed series missing) and three daily rows.
\<close>

definition example_now :: datetime where
  "example_now =
     \<lparr>year = 2024, month = 5, day = 1, hour = 13, minute = 20, second = 0, microsecond = 0\<rparr>"

definition example_late :: datetime where
  "example_late =
     \<lparr>year = 2024, month = 5, day = 1, hour = 23, minute = 30, second = 0, microsecond = 0\<rparr>"

definition example_times :: "pystr list" where
  "example_times =
     [ascii ''2024-05-01T12:00'', ascii ''2024-05-01T13:00'', ascii ''2024-05-01T14:00'',
      ascii ''2024-05-01T15:00'', ascii ''2024-05-02T06:00'', ascii ''2024-05-02T07:00'']"

definition example_hourly :: hourly where
  "example_hourly =
     \<lparr>h_time = Some example_times,
      h_temperature_2m = Some [PInt 18, PInt 19, PInt 21, PInt 20, PInt 12, PInt 13],
      h_apparent_temperature = Some [PInt 17, PInt 18, PInt 20, PInt 19, PInt 11, PInt 12],
      h_weathercode = Some [PInt 0, PInt 1, PInt 61, PInt 63, PInt 3, PInt 2],
      h_relativehumidity_2m = Some [PInt 50, PInt 55, PInt 60, PInt 65, PInt 70, PInt 75],
      h_windspeed_10m = None,
      h_precipitation_probability = Some [PInt 30, PInt 0, PInt 0, PInt 40, PInt 70, PInt 0],
      h_precipitation =
        Some [PFloat (FNum 1), PFloat (FNum 0), PFloat (FNum 0), PFloat (FNum 2),
              PFloat (FNum 3), PFloat (FNum 0)]\<rparr>"

text \<open>
  The same hours with a NaN as the probability of 14:00, before the 50 of 15:00, and no
  series of amounts.
\<close>

definition nan_hourly :: hourly where
  "nan_hourly =
     \<lparr>h_time = Some example_times,
      h_temperature_2m = Some [PInt 18, PInt 19, PInt 21, PInt 20, PInt 12, PInt 13],
      h_apparent_temperature = None,
      h_weathercode = Some [PInt 0, PInt 1, PInt 61, PInt 63, PInt 3, PInt 2],
      h_relativehumidity_2m = None,
      h_windspeed_10m = None,
      h_precipitation_probability =
        Some [PInt 0, PInt 0, PFloat FNaN, PInt 50, PInt 0, PInt 0],
      h_precipitation = None\<rparr>"

definition example_daily :: daily where
  "example_daily =
     \<lparr>d_time = Some [ascii ''2024-05-01'', ascii ''2024-05-02'', ascii ''2024-05-03''],
      d_temperature_2m_max = Some [PInt 22, PInt 24, PInt 19],
      d_temperature_2m_min = Some [PInt 11, PInt 12, PInt 9],
      d_weathercode = Some [PInt 1, PInt 61, PInt 3]\<rparr>"

definition example_payload :: payload where
  "example_payload =
     \<lparr>p_current_weather = Some \<lparr>c_temperature = Some (PInt 20), c_weathercode = Some (PInt 3)\<rparr>,
      p_hourly = Some example_hourly,
      p_daily = Some example_daily\<rparr>"

text \<open>A daily payload that holds today only, and one that holds no day at all.\<close>

definition today_only_daily :: daily where
  "today_only_daily =
     \<lparr>d_time = Some [ascii ''2024-05-01''],
      d_temperature_2m_max = Some [PInt 22],
      d_temperature_2m_min = Some [PInt 11],
      d_weathercode = Some [PInt 1]\<rparr>"

definition empty_daily :: daily where
  "empty_daily =
     \<lparr>d_time = Some [], d_temperature_2m_max = Some [], d_temperature_2m_min = Some [],
      d_weathercode = Some []\<rparr>"

text \<open>
  Three worlds. In \<open>offline_world\<close> every request fails. In \<open>located_world\<close> the two
  location lookups answer (without a city) and the forecast service answers with an error
  status. In \<open>unlocated_world\<close> the first lookup answers with an empty text and the second
  with an error status, and the forecast service answers with \<open>example_payload\<close>.
\<close>

definition offline_world :: world where
  "offline_world =
     \<lparr>checkip = Inl (ascii ''Connection refused''),
      ip_api = (\<lambda>url. Inl (ascii ''Connection refused'')),
      open_meteo = (\<lambda>url. Inl (ascii ''timed out'')),
      clock = example_now\<rparr>"

definition located_world :: world where
  "located_world =
     \<lparr>checkip = Inr (ascii ''203.0.113.7'' @ [10]),
      ip_api = (\<lambda>url.
        if url = ascii ''http://ip-api.com/json/203.0.113.7''
        then Inr \<lparr>status_error = None,
                  json_body = Inr \<lparr>g_lat = Some (PInt 48), g_lon = Some (PInt 2),
                                   g_city = None\<rparr>\<rparr>
        else Inl (ascii ''Connection refused'')),
      open_meteo = (\<lambda>url. Inr \<lparr>status_error = Some (ascii ''502 Server Error''),
                               json_body = Inl (ascii ''Expecting value'')\<rparr>),
      clock = example_now\<rparr>"


section \<open>Notions of the specification\<close>

text \<open>A timestamp that \<open>find_current_hour_index\<close> looks for: it has the date and the hour of \<open>now\<close>.\<close>

definition hour_matches :: "runtime \<Rightarrow> datetime \<Rightarrow> pystr \<Rightarrow> bool" where
  "hour_matches rt now t =
     (case fromisoformat rt t of
        None \<Rightarrow> False
      | Some dt \<Rightarrow> hour dt = hour now \<and> date_of dt = date_of now)"

text \<open>A series of the hourly payload that is absent (and then replaced by a filler of the length
  of the time series) or has the length of the time series.\<close>

definition same_length :: "pyval list option \<Rightarrow> nat \<Rightarrow> bool" where
  "same_length entry n = (case entry of None \<Rightarrow> True | Some arr \<Rightarrow> length arr = n)"

text \<open>A timestamp of today that is not before \<open>now\<close>.\<close>

definition future_today :: "runtime \<Rightarrow> datetime \<Rightarrow> pystr \<Rightarrow> bool" where
  "future_today rt now t =
     (case fromisoformat rt t of
        None \<Rightarrow> False
      | Some dt \<Rightarrow> date_of dt = date_of now \<and> dt_ge dt now)"

text \<open>A row of today that is not before \<open>now\<close> and has a precipitation probability above 0.\<close>

definition rainy_row :: "runtime \<Rightarrow> datetime \<Rightarrow> pystr \<times> pyval \<times> pyval \<Rightarrow> bool" where
  "rainy_row rt now row = (future_today rt now (fst row) \<and> py_gt0 (fst (snd row)) = Inr True)"

text \<open>The rows \<open>(timestamp, probability, amount)\<close> of the rain outlook: the time series zipped
  with the two precipitation series, or their fillers.\<close>

definition rain_rows :: "hourly \<Rightarrow> (pystr \<times> pyval \<times> pyval) list" where
  "rain_rows hourly =
     (case h_time hourly of
        None \<Rightarrow> []
      | Some tms \<Rightarrow>
          zip tms
            (zip (get_or_fill (h_precipitation_probability hourly) (PInt 0) (length tms))
                 (get_or_fill (h_precipitation hourly) (PInt 0) (length tms))))"

text \<open>The timestamp of the first rainy row.\<close>

definition rain_start_of :: "runtime \<Rightarrow> datetime \<Rightarrow> (pystr \<times> pyval \<times> pyval) list \<Rightarrow> datetime option" where
  "rain_start_of rt now rows =
     (case find (rainy_row rt now) rows of
        None \<Rightarrow> None
      | Some row \<Rightarrow> fromisoformat rt (fst row))"

text \<open>
  Rows on which the rain loop raises nothing: every timestamp parses, and the rows of today
  that are not before \<open>now\<close> hold a number as probability and, as amount, a float or the
  integer 0 (of the filler).
\<close>

definition is_float :: "pyval \<Rightarrow> bool" where
  "is_float v = (case v of PFloat f \<Rightarrow> True | _ \<Rightarrow> False)"

definition rows_readable :: "runtime \<Rightarrow> datetime \<Rightarrow> (pystr \<times> pyval \<times> pyval) list \<Rightarrow> bool" where
  "rows_readable rt now rows =
     list_all (\<lambda>row. fromisoformat rt (fst row) \<noteq> None
                  \<and> (future_today rt now (fst row)
                       \<longrightarrow> fst (snd row) \<noteq> PNone
                           \<and> (is_float (snd (snd row)) \<or> snd (snd row) = PInt 0))) rows"

text \<open>The first row of today that is not before \<open>now\<close> has the probability NaN.\<close>

definition nan_leads :: "runtime \<Rightarrow> datetime \<Rightarrow> (pystr \<times> pyval \<times> pyval) list \<Rightarrow> bool" where
  "nan_leads rt now rows =
     (case filter (\<lambda>row. future_today rt now (fst row)) rows of
        [] \<Rightarrow> False
      | row # rest \<Rightarrow> fst (snd row) = PFloat FNaN)"

text \<open>The rows \<open>(timestamp, temperature, code)\<close> of the hourly and the tomorrow builder.\<close>

definition hourly_rows :: "hourly \<Rightarrow> (pystr \<times> pyval \<times> pyval) list" where
  "hourly_rows hourly =
     (case (h_time hourly, h_temperature_2m hourly, h_weathercode hourly) of
        (Some tms, Some temps, Some codes) \<Rightarrow> zip tms (zip temps codes)
      | _ \<Rightarrow> [])"

text \<open>A row that \<open>build_hourly_forecast\<close> renders for \<open>for_date\<close>.\<close>

definition hour_kept :: "runtime \<Rightarrow> datetime \<Rightarrow> date \<Rightarrow> pystr \<times> pyval \<times> pyval \<Rightarrow> bool" where
  "hour_kept rt now for_date row =
     (case fromisoformat rt (fst row) of
        None \<Rightarrow> False
      | Some dt \<Rightarrow> date_of dt = for_date \<and> \<not> (for_date = date_of now \<and> dt_less dt now))"

text \<open>A row of today whose timestamp is not strictly before \<open>now\<close>.\<close>

definition remaining_today :: "runtime \<Rightarrow> datetime \<Rightarrow> pystr \<times> pyval \<times> pyval \<Rightarrow> bool" where
  "remaining_today rt now row =
     (case fromisoformat rt (fst row) of
        None \<Rightarrow> False
      | Some dt \<Rightarrow> date_of dt = date_of now \<and> \<not> dt_less dt now)"

text \<open>The line of one row of the hourly forecast.\<close>

definition row_line :: "runtime \<Rightarrow> pystr \<times> pyval \<times> pyval \<Rightarrow> pyerr + pystr" where
  "row_line rt row =
     (case fromisoformat rt (fst row) of
        None \<Rightarrow> Inl ValueError
      | Some dt \<Rightarrow> hourly_line rt dt (fst (snd row)) (snd (snd row)))"

text \<open>Rows on which the hourly loop for today raises nothing.\<close>

definition hourly_readable :: "runtime \<Rightarrow> datetime \<Rightarrow> (pystr \<times> pyval \<times> pyval) list \<Rightarrow> bool" where
  "hourly_readable rt now rows =
     list_all (\<lambda>row. fromisoformat rt (fst row) \<noteq> None
                  \<and> (remaining_today rt now row \<longrightarrow> fst (snd row) \<noteq> PNone)) rows"

text \<open>A row that \<open>build_tomorrow_forecast\<close> renders: of tomorrow, at one of the four labelled hours.\<close>

definition tomorrow_kept :: "runtime \<Rightarrow> date \<Rightarrow> pystr \<times> pyval \<times> pyval \<Rightarrow> bool" where
  "tomorrow_kept rt tomorrow row =
     (case fromisoformat rt (fst row) of
        None \<Rightarrow> False
      | Some dt \<Rightarrow> date_of dt = tomorrow \<and> hour dt \<in> {6, 12, 15, 18})"

section \<open>Basic facts\<close>

lemma and_then_Inl [simp]: "and_then (Inl e) f = Inl e"
  by (simp add: and_then_def)

lemma and_then_Inr [simp]: "and_then (Inr v) f = f v"
  by (simp add: and_then_def)

lemma and_then_eq_Inr: "and_then x f = Inr y \<longleftrightarrow> (\<exists>v. x = Inr v \<and> f v = Inr y)"
  by (cases x) simp_all

lemma float_le_FNum [simp]: "float_le (FNum a) (FNum b) \<longleftrightarrow> a \<le> b"
  by (auto simp: float_le_def)

lemma float_lt_FNum [simp]: "float_lt (FNum a) (FNum b) \<longleftrightarrow> a < b"
  by simp

section \<open>The examples, evaluated\<close>

lemma example_parse:
  "fromisoformat example_runtime (ascii ''2024-05-01T12:00'')
     = Some \<lparr>year = 2024, month = 5, day = 1, hour = 12, minute = 0, second = 0, microsecond = 0\<rparr>"
  "fromisoformat example_runtime (ascii ''2024-05-01T13:00'')
     = Some \<lparr>year = 2024, month = 5, day = 1, hour = 13, minute = 0, second = 0, microsecond = 0\<rparr>"
  "fromisoformat example_runtime (ascii ''2024-05-01T14:00'')
     = Some \<lparr>year = 2024, month = 5, day = 1, hour = 14, minute = 0, second = 0, microsecond = 0\<rparr>"
  "fromisoformat example_runtime (ascii ''2024-05-01T15:00'')
     = Some \<lparr>year = 2024, month = 5, day = 1, hour = 15, minute = 0, second = 0, microsecond = 0\<rparr>"
  "fromisoformat example_runtime (ascii ''2024-05-02T06:00'')
     = Some \<lparr>year = 2024, month = 5, day = 2, hour = 6, minute = 0, second = 0, microsecond = 0\<rparr>"
  "fromisoformat example_runtime (ascii ''2024-05-02T07:00'')
     = Some \<lparr>year = 2024, month = 5, day = 2, hour = 7, minute = 0, second = 0, microsecond = 0\<rparr>"
  "fromisoformat example_runtime (ascii ''2024-05-01'')
     = Some \<lparr>year = 2024, month = 5, day = 1, hour = 0, minute = 0, second = 0, microsecond = 0\<rparr>"
  "fromisoformat example_runtime (ascii ''2024-05-02'')
     = Some \<lparr>year = 2024, month = 5, day = 2, hour = 0, minute = 0, second = 0, microsecond = 0\<rparr>"
  "fromisoformat example_runtime (ascii ''2024-05-03'')
     = Some \<lparr>year = 2024, month = 5, day = 3, hour = 0, minute = 0, second = 0, microsecond = 0\<rparr>"
  by (simp_all add: example_runtime_def parse_iso_def parse_date_def ascii_def digit_val_def
      days_in_month_def is_leap_def)

lemma example_runtime_fields:
  "float_add example_runtime = example_float_add"
  "format_1f example_runtime = example_float_text"
  "float_repr example_runtime = example_float_text"
  "float_of_int example_runtime 0 = Some (FNum 0)"
  by (simp_all add: example_runtime_def)

lemmas example_eval =
  example_hourly_def example_times_def example_parse date_of_def example_now_def
  example_late_def dt_ge_def dt_less_def dt_key_def py_gt0_def get_or_fill_def py_item_def
  to_float_def example_runtime_fields

lemma example_rain_state:
  "rain_loop example_runtime example_now (rain_rows example_hourly) ([], None, PInt 0)
     = Inr ([PInt 0, PInt 40],
            Some \<lparr>year = 2024, month = 5, day = 1, hour = 15, minute = 0, second = 0,
                  microsecond = 0\<rparr>,
            PFloat (FNum 2))"
  by (simp add: rain_rows_def example_eval)

lemma example_rain_lines:
  "rain_lines example_runtime
     ([PInt 0, PInt 40],
      Some \<lparr>year = 2024, month = 5, day = 1, hour = 15, minute = 0, second = 0,
            microsecond = 0\<rparr>,
      PFloat (FNum 2))
   = Inr [[0x1F327, 0xFE0F] @ ascii '' Chance of rain today: ''
            @ span_fg FG_TEXT (ascii ''40%''),
          [0x23F1, 0xFE0F] @ ascii '' Expected rain start: 03:00 PM'',
          [0x2614] @ ascii '' Total predicted rain: 2.0 mm'',
          []]"
  by (simp add: rain_lines_def py_gt0_def example_runtime_fields
      strftime_IMp_def two_digits_def str_int_def ascii_def)

lemma example_rain:
  "build_today_rain_info example_runtime example_hourly example_now
     = Inr [[0x1F327, 0xFE0F] @ ascii '' Chance of rain today: ''
              @ span_fg FG_TEXT (ascii ''40%''),
            [0x23F1, 0xFE0F] @ ascii '' Expected rain start: 03:00 PM'',
            [0x2614] @ ascii '' Total predicted rain: 2.0 mm'',
            []]"
proof -
  have "build_today_rain_info example_runtime example_hourly example_now
        = and_then (rain_loop example_runtime example_now (rain_rows example_hourly)
                      ([], None, PInt 0))
            (rain_lines example_runtime)"
    by (simp add: build_today_rain_info_def rain_rows_def example_hourly_def py_item_def)
  then show ?thesis
    by (simp only: example_rain_state and_then_Inr example_rain_lines)
qed

lemma example_rain_late:
  "build_today_rain_info example_runtime example_hourly example_late = Inr []"
  by (simp add: build_today_rain_info_def rain_lines_def example_eval)

lemma example_rows_readable:
  "rows_readable example_runtime example_now (rain_rows example_hourly)"
  "rows_readable example_runtime example_late (rain_rows example_hourly)"
  by (simp_all add: rows_readable_def is_float_def rain_rows_def future_today_def example_eval)

lemma example_no_nan:
  "\<not> nan_leads example_runtime example_now (rain_rows example_hourly)"
  by (simp add: nan_leads_def rain_rows_def future_today_def example_eval)

lemma nan_hourly_rain:
  "build_today_rain_info example_runtime nan_hourly example_now = Inr []"
  "list_ex (rainy_row example_runtime example_now) (rain_rows nan_hourly)"
  "nan_leads example_runtime example_now (rain_rows nan_hourly)"
  by (simp_all add: build_today_rain_info_def rain_lines_def nan_hourly_def nan_leads_def
      rainy_row_def rain_rows_def future_today_def example_eval)

lemma example_rainy:
  "list_ex (rainy_row example_runtime example_now) (rain_rows example_hourly)"
  "\<not> list_ex (rainy_row example_runtime example_late) (rain_rows example_hourly)"
  "rain_start_of example_runtime example_now (rain_rows example_hourly)
     = Some \<lparr>year = 2024, month = 5, day = 1, hour = 15, minute = 0, second = 0,
             microsecond = 0\<rparr>"
  by (simp_all add: rain_start_of_def rainy_row_def rain_rows_def future_today_def example_eval)

lemma example_hourly_keys:
  "h_time example_hourly \<noteq> None" "h_temperature_2m example_hourly \<noteq> None"
  "h_weathercode example_hourly \<noteq> None"
  by (simp_all add: example_hourly_def)

lemma example_hourly_readable:
  "hourly_readable example_runtime example_now (hourly_rows example_hourly)"
  "hourly_readable example_runtime example_late (hourly_rows example_hourly)"
  by (simp_all add: hourly_readable_def hourly_rows_def remaining_today_def example_eval)

lemma example_remaining:
  "filter (remaining_today example_runtime example_now) (hourly_rows example_hourly)
     = [(ascii ''2024-05-01T14:00'', PInt 21, PInt 61),
        (ascii ''2024-05-01T15:00'', PInt 20, PInt 63)]"
  "filter (remaining_today example_runtime example_late) (hourly_rows example_hourly) = []"
  by (simp_all add: hourly_rows_def remaining_today_def example_eval)

lemma example_row_lines:
  "row_line example_runtime (ascii ''2024-05-01T14:00'', PInt 21, PInt 61)
     = Inr (ascii ''14:00 - '' @ span_fg (ascii ''#99d1db'') (ascii ''21'' @ deg_C)
            @ ascii '' '' @ [0x1F327, 0xFE0F] @ ascii '' Slight rain'')"
  "row_line example_runtime (ascii ''2024-05-01T15:00'', PInt 20, PInt 63)
     = Inr (ascii ''15:00 - '' @ span_fg (ascii ''#99d1db'') (ascii ''20'' @ deg_C)
            @ ascii '' '' @ [0x1F327, 0xFE0F] @ ascii '' Mod rain'')"
proof -
  show "row_line example_runtime (ascii ''2024-05-01T14:00'', PInt 21, PInt 61)
     = Inr (ascii ''14:00 - '' @ span_fg (ascii ''#99d1db'') (ascii ''21'' @ deg_C)
            @ ascii '' '' @ [0x1F327, 0xFE0F] @ ascii '' Slight rain'')"
    by (simp add: row_line_def example_parse)
       (simp add: hourly_line_def strftime_HM_def two_digits_def get_weather_info_def
          WEATHER_MAP_def get_short_desc_def SHORT_DESC_MAP_def temp_to_color_def
          temp_color_def TEMP_COLORS_def rjust_def str_int_def ascii_def)
  show "row_line example_runtime (ascii ''2024-05-01T15:00'', PInt 20, PInt 63)
     = Inr (ascii ''15:00 - '' @ span_fg (ascii ''#99d1db'') (ascii ''20'' @ deg_C)
            @ ascii '' '' @ [0x1F327, 0xFE0F] @ ascii '' Mod rain'')"
    by (simp add: row_line_def example_parse)
       (simp add: hourly_line_def strftime_HM_def two_digits_def get_weather_info_def
          WEATHER_MAP_def get_short_desc_def SHORT_DESC_MAP_def temp_to_color_def
          temp_color_def TEMP_COLORS_def rjust_def str_int_def ascii_def)
qed

lemma example_hourly_late:
  "build_hourly_forecast example_runtime example_hourly example_late (date_of example_late)
     = Inr [ascii ''Hourly forecast unavailable'']"
  by (simp add: build_hourly_forecast_def example_eval)

lemma example_tomorrow_none:
  "build_tomorrow_forecast example_runtime example_hourly (2024, 5, 3)
     = Inr [ascii ''Tomorrow forecast unavailable'']"
  by (simp add: build_tomorrow_forecast_def example_eval)

lemma example_kept_none:
  "filter (hour_kept example_runtime example_late (date_of example_late))
     (hourly_rows example_hourly) = []"
  "filter (tomorrow_kept example_runtime (2024, 5, 3)) (hourly_rows example_hourly) = []"
  "\<not> list_ex (rainy_row example_runtime example_late) (rain_rows example_hourly)"
  by (simp_all add: hourly_rows_def hour_kept_def tomorrow_kept_def rainy_row_def rain_rows_def
      future_today_def example_eval)

lemma today_only_daily_lines:
  "build_daily_forecast example_runtime today_only_daily 5 = Inr []"
  by (simp add: build_daily_forecast_def today_only_daily_def py_item_def py_range_def)

lemma empty_daily_lines:
  "build_daily_forecast example_runtime empty_daily 5 = Inr []"
  by (simp add: build_daily_forecast_def empty_daily_def py_item_def py_range_def)

lemma example_daily_line_1:
  "daily_line example_runtime
     [ascii ''2024-05-01'', ascii ''2024-05-02'', ascii ''2024-05-03'']
     [PInt 22, PInt 24, PInt 19] [PInt 11, PInt 12, PInt 9] [PInt 1, PInt 61, PInt 3] 1
   = Inr (ascii ''Thu '' @ [0x2B06, 0xFE0F] @ span_fg (ascii ''#81c8be'') (ascii ''24'' @ deg_C)
          @ ascii '' '' @ [0x2B07, 0xFE0F] @ span_fg (ascii ''#8caaee'') (ascii ''12'' @ deg_C)
          @ ascii '' '' @ [0x1F327, 0xFE0F] @ ascii '' Slight rain'')"
  by (simp add: daily_line_def py_index_def example_parse)
     (simp add: date_of_def weekday_def toordinal_def days_before_month_def is_leap_def
        day_abbr_def ljust_def get_weather_info_def WEATHER_MAP_def get_short_desc_def
        SHORT_DESC_MAP_def temp_to_color_def temp_color_def TEMP_COLORS_def rjust_def
        str_int_def ascii_def)

lemma example_daily_line_2:
  "daily_line example_runtime
     [ascii ''2024-05-01'', ascii ''2024-05-02'', ascii ''2024-05-03'']
     [PInt 22, PInt 24, PInt 19] [PInt 11, PInt 12, PInt 9] [PInt 1, PInt 61, PInt 3] 2
   = Inr (ascii ''Fri '' @ [0x2B06, 0xFE0F] @ span_fg (ascii ''#99d1db'') (ascii ''19'' @ deg_C)
          @ ascii '' '' @ [0x2B07, 0xFE0F] @ span_fg (ascii ''#8caaee'') (ascii '' 9'' @ deg_C)
          @ ascii '' '' @ [0x2601, 0xFE0F] @ ascii '' Overcast'')"
  by (simp add: daily_line_def py_index_def example_parse)
     (simp add: date_of_def weekday_def toordinal_def days_before_month_def is_leap_def
        day_abbr_def ljust_def get_weather_info_def WEATHER_MAP_def get_short_desc_def
        SHORT_DESC_MAP_def temp_to_color_def temp_color_def TEMP_COLORS_def rjust_def
        str_int_def ascii_def)

lemma example_daily_lines:
  "build_daily_forecast example_runtime example_daily 5
   = Inr [ascii ''Thu '' @ [0x2B06, 0xFE0F] @ span_fg (ascii ''#81c8be'') (ascii ''24'' @ deg_C)
          @ ascii '' '' @ [0x2B07, 0xFE0F] @ span_fg (ascii ''#8caaee'') (ascii ''12'' @ deg_C)
          @ ascii '' '' @ [0x1F327, 0xFE0F] @ ascii '' Slight rain'',
          ascii ''Fri '' @ [0x2B06, 0xFE0F] @ span_fg (ascii ''#99d1db'') (ascii ''19'' @ deg_C)
          @ ascii '' '' @ [0x2B07, 0xFE0F] @ span_fg (ascii ''#8caaee'') (ascii '' 9'' @ deg_C)
          @ ascii '' '' @ [0x2601, 0xFE0F] @ ascii '' Overcast'']"
proof -
  have r: "py_range 1 3 = [1, 2]"
    by (simp add: py_range_def upt_rec)
  show ?thesis
    by (simp add: build_daily_forecast_def example_daily_def py_item_def r
        example_daily_line_1 [unfolded One_nat_def] example_daily_line_2)
qed


section \<open>The colour scale\<close>

lemma temp_color_scan_first:
  "i < length tbl \<Longrightarrow> float_le r (FNum (of_int (fst (tbl ! i)))) \<Longrightarrow>
   (\<forall>j<i. \<not> float_le r (FNum (of_int (fst (tbl ! j))))) \<Longrightarrow>
   temp_color_scan tbl r = Some (snd (tbl ! i))"
proof (induction tbl arbitrary: i)
  case Nil
  then show ?case by simp
next
  case (Cons a tbl)
  obtain t_max color where a: "a = (t_max, color)" by (cases a)
  show ?case
  proof (cases i)
    case 0
    with Cons.prems a show ?thesis by simp
  next
    case (Suc k)
    from Cons.prems(3) Suc have first: "\<not> float_le r (FNum (of_int t_max))"
      using a by auto
    from Cons.prems(3) Suc have rest: "\<forall>j<k. \<not> float_le r (FNum (of_int (fst (tbl ! j))))"
      by auto
    from Cons.IH [of k] Cons.prems(1,2) Suc rest
    have "temp_color_scan tbl r = Some (snd (tbl ! k))" by simp
    with first a Suc show ?thesis by simp
  qed
qed

lemma temp_color_scan_none:
  "(\<forall>i<length tbl. \<not> float_le r (FNum (of_int (fst (tbl ! i))))) \<Longrightarrow> temp_color_scan tbl r = None"
proof (induction tbl)
  case Nil
  then show ?case by simp
next
  case (Cons a tbl)
  obtain t_max color where a: "a = (t_max, color)" by (cases a)
  from Cons.prems have "\<not> float_le r (FNum (of_int t_max))" using a by auto
  moreover from Cons.prems have "\<forall>i<length tbl. \<not> float_le r (FNum (of_int (fst (tbl ! i))))" by auto
  ultimately show ?case using Cons.IH a by simp
qed

lemma TEMP_COLORS_sorted: "sorted (map fst TEMP_COLORS)"
  by (simp add: TEMP_COLORS_def)

text \<open>
  Claim C6. For every numeric temperature, \<open>temp_to_color\<close> gives the colour paired with
  the first upper bound of the ascending table \<open>TEMP_COLORS\<close> that is at least the
  temperature, and the last colour of the table when no bound is; 14 gets the colour of
  the first bucket, 33 the colour of its own bucket, 50 the last colour. Of the floats
  that are no finite number, \<open>-0.0\<close> and \<open>-Infinity\<close> get the first colour, \<open>Infinity\<close> and
  NaN (which no bound is at least) the last.
\<close>

theorem temp_to_color_first_bound:
  assumes "num_val temp = Inr (FNum t)"
  shows "(\<forall>i<length TEMP_COLORS.
            t \<le> of_int (fst (TEMP_COLORS ! i))
            \<and> (\<forall>j<i. \<not> t \<le> of_int (fst (TEMP_COLORS ! j)))
            \<longrightarrow> temp_to_color temp = Inr (snd (TEMP_COLORS ! i)))
       \<and> ((\<forall>i<length TEMP_COLORS. \<not> t \<le> of_int (fst (TEMP_COLORS ! i)))
            \<longrightarrow> temp_to_color temp = Inr (snd (last TEMP_COLORS)))
       \<and> sorted (map fst TEMP_COLORS)
       \<and> temp_to_color (PInt 14) = Inr (snd (TEMP_COLORS ! 0))
       \<and> TEMP_COLORS ! 7 = (33, ascii ''#ea999c'')
       \<and> temp_to_color (PInt 33) = Inr (ascii ''#ea999c'')
       \<and> temp_to_color (PInt 50) = Inr (snd (last TEMP_COLORS))
       \<and> temp_to_color (PFloat FNegZero) = Inr (snd (TEMP_COLORS ! 0))
       \<and> temp_to_color (PFloat FNegInf) = Inr (snd (TEMP_COLORS ! 0))
       \<and> temp_to_color (PFloat FInf) = Inr (snd (last TEMP_COLORS))
       \<and> temp_to_color (PFloat FNaN) = Inr (snd (last TEMP_COLORS))"
proof (intro conjI allI impI)
  fix i
  assume "i < length TEMP_COLORS"
    and "t \<le> of_int (fst (TEMP_COLORS ! i))
         \<and> (\<forall>j<i. \<not> t \<le> of_int (fst (TEMP_COLORS ! j)))"
  then have "temp_color_scan TEMP_COLORS (FNum t) = Some (snd (TEMP_COLORS ! i))"
    by (simp add: temp_color_scan_first)
  with assms show "temp_to_color temp = Inr (snd (TEMP_COLORS ! i))"
    by (simp add: temp_to_color_def temp_color_def)
next
  assume "\<forall>i<length TEMP_COLORS. \<not> t \<le> of_int (fst (TEMP_COLORS ! i))"
  then have "temp_color_scan TEMP_COLORS (FNum t) = None"
    by (simp add: temp_color_scan_none)
  with assms show "temp_to_color temp = Inr (snd (last TEMP_COLORS))"
    by (simp add: temp_to_color_def temp_color_def)
next
  show "sorted (map fst TEMP_COLORS)" by (rule TEMP_COLORS_sorted)
next
  show "temp_to_color (PInt 14) = Inr (snd (TEMP_COLORS ! 0))"
    by (simp add: temp_to_color_def temp_color_def TEMP_COLORS_def)
next
  show "TEMP_COLORS ! 7 = (33, ascii ''#ea999c'')"
    by (simp add: TEMP_COLORS_def)
next
  show "temp_to_color (PInt 33) = Inr (ascii ''#ea999c'')"
    by (simp add: temp_to_color_def temp_color_def TEMP_COLORS_def)
next
  show "temp_to_color (PInt 50) = Inr (snd (last TEMP_COLORS))"
    by (simp add: temp_to_color_def temp_color_def TEMP_COLORS_def)
next
  show "temp_to_color (PFloat FNegZero) = Inr (snd (TEMP_COLORS ! 0))"
    by (simp add: temp_to_color_def temp_color_def TEMP_COLORS_def float_le_def)
next
  show "temp_to_color (PFloat FNegInf) = Inr (snd (TEMP_COLORS ! 0))"
    by (simp add: temp_to_color_def temp_color_def TEMP_COLORS_def float_le_def)
next
  show "temp_to_color (PFloat FInf) = Inr (snd (last TEMP_COLORS))"
    by (simp add: temp_to_color_def temp_color_def TEMP_COLORS_def float_le_def)
next
  show "temp_to_color (PFloat FNaN) = Inr (snd (last TEMP_COLORS))"
    by (simp add: temp_to_color_def temp_color_def TEMP_COLORS_def float_le_def)
qed

theorem temp_to_color_first_bound_witness:
  "num_val (PFloat (FNum 19.5)) = Inr (FNum 19.5)
   \<and> temp_to_color (PFloat (FNum 19.5)) = Inr (ascii ''#99d1db'')
   \<and> num_val (PInt 150) = Inr (FNum 150)
   \<and> temp_to_color (PInt 150) = Inr (ascii ''#e78284'')"
proof -
  have a: "num_val (PFloat (FNum 19.5)) = Inr (FNum 19.5)" by simp
  have b: "num_val (PInt 150) = Inr (FNum 150)" by simp
  have len: "length TEMP_COLORS = 9" by (simp add: TEMP_COLORS_def)
  have "temp_to_color (PFloat (FNum 19.5)) = Inr (snd (TEMP_COLORS ! 2))"
    using temp_to_color_first_bound [OF a] len
    by (simp add: TEMP_COLORS_def less_Suc_eq)
  moreover have "temp_to_color (PInt 150) = Inr (snd (last TEMP_COLORS))"
    using temp_to_color_first_bound [OF b] len
    by (simp add: TEMP_COLORS_def less_Suc_eq)
  ultimately show ?thesis
    by (simp add: TEMP_COLORS_def)
qed

section \<open>Extractor: the index of the current hour\<close>

lemma find_hour_loop_match:
  "find_hour_loop rt now ts i = Inr k \<Longrightarrow> \<exists>t\<in>set ts. hour_matches rt now t \<Longrightarrow>
   i \<le> k \<and> k < i + length ts \<and> hour_matches rt now (ts ! (k - i))
   \<and> (\<forall>j<k - i. \<not> hour_matches rt now (ts ! j))"
proof (induction ts arbitrary: i)
  case Nil
  then show ?case by simp
next
  case (Cons t ts)
  show ?case
  proof (cases "hour_matches rt now t")
    case True
    with Cons.prems(1) have "k = i"
      by (auto simp: hour_matches_def split: option.splits)
    with True show ?thesis by simp
  next
    case False
    with Cons.prems(2) have ex: "\<exists>t\<in>set ts. hour_matches rt now t" by auto
    from False Cons.prems(1) have "find_hour_loop rt now ts (Suc i) = Inr k"
      by (auto simp: hour_matches_def split: option.splits if_splits)
    from Cons.IH [OF this ex]
    have ih: "Suc i \<le> k" "k < Suc i + length ts" "hour_matches rt now (ts ! (k - Suc i))"
      "\<forall>j<k - Suc i. \<not> hour_matches rt now (ts ! j)" by auto
    from ih(1) have split: "k - i = Suc (k - Suc i)" by simp
    have "\<forall>j<k - i. \<not> hour_matches rt now ((t # ts) ! j)"
    proof (intro allI impI)
      fix j assume "j < k - i"
      then show "\<not> hour_matches rt now ((t # ts) ! j)"
        using False ih(4) split by (cases j) auto
    qed
    with ih split show ?thesis by simp
  qed
qed

lemma find_hour_loop_no_match:
  "find_hour_loop rt now ts i = Inr k \<Longrightarrow> \<forall>t\<in>set ts. \<not> hour_matches rt now t \<Longrightarrow> k = 0"
  by (induction ts arbitrary: i)
     (auto simp: hour_matches_def split: option.splits if_splits)

lemma find_hour_loop_returns:
  "\<forall>t\<in>set ts. fromisoformat rt t \<noteq> None \<Longrightarrow> \<exists>k. find_hour_loop rt now ts i = Inr k"
  by (induction ts arbitrary: i) (auto split: option.splits)

lemma find_hour_loop_error:
  "find_hour_loop rt now ts i = Inl e \<Longrightarrow> e = ValueError"
  by (induction ts arbitrary: i) (auto split: option.splits if_splits)

lemma py_index_no_error:
  "i < n \<Longrightarrow> same_length entry n \<Longrightarrow> py_index (get_or_fill entry fill n) i \<noteq> Inl IndexError"
  by (auto simp: py_index_def get_or_fill_def same_length_def split: option.splits)

lemma and_then_not_IndexError:
  "x \<noteq> Inl IndexError \<Longrightarrow> (\<And>v. x = Inr v \<Longrightarrow> f v \<noteq> Inl IndexError) \<Longrightarrow>
   and_then x f \<noteq> Inl IndexError"
  by (cases x) auto

lemma py_item_not_IndexError: "py_item entry \<noteq> Inl IndexError"
  by (simp add: py_item_def split: option.splits)

text \<open>
  Claim C9. On a non-empty list of timestamps \<open>find_current_hour_index\<close> returns when
  every timestamp parses, and an index it returns is below the length of the list: the
  index of the first timestamp with the date and hour of \<open>now\<close>, or 0 when there is none.
  Hence \<open>extract_current_weather\<close> raises no IndexError when every hourly series it reads
  is absent (and replaced by the filler) or as long as the time series.
\<close>

theorem find_current_hour_index_in_range:
  assumes "tms \<noteq> []"
  shows "((\<forall>t\<in>set tms. fromisoformat rt t \<noteq> None)
            \<longrightarrow> (\<exists>i. find_current_hour_index rt tms now = Inr i))
       \<and> (\<forall>i. find_current_hour_index rt tms now = Inr i \<longrightarrow>
             i < length tms
             \<and> (if \<exists>t\<in>set tms. hour_matches rt now t
                then hour_matches rt now (tms ! i) \<and> (\<forall>j<i. \<not> hour_matches rt now (tms ! j))
                else i = 0))
       \<and> (\<forall>hourly. p_hourly data = Some hourly \<and> h_time hourly = Some tms
             \<and> same_length (h_apparent_temperature hourly) (length tms)
             \<and> same_length (h_relativehumidity_2m hourly) (length tms)
             \<and> same_length (h_windspeed_10m hourly) (length tms)
             \<longrightarrow> extract_current_weather rt data now \<noteq> Inl IndexError)"
proof -
  have returns: "\<exists>i. find_current_hour_index rt tms now = Inr i"
    if "\<forall>t\<in>set tms. fromisoformat rt t \<noteq> None"
    using that unfolding find_current_hour_index_def by (rule find_hour_loop_returns)
  have range: "i < length tms
        \<and> (if \<exists>t\<in>set tms. hour_matches rt now t
           then hour_matches rt now (tms ! i) \<and> (\<forall>j<i. \<not> hour_matches rt now (tms ! j))
           else i = 0)"
    if found: "find_current_hour_index rt tms now = Inr i" for i
  proof (cases "\<exists>t\<in>set tms. hour_matches rt now t")
    case True
    from find_hour_loop_match [OF found [unfolded find_current_hour_index_def] True]
    show ?thesis using True by simp
  next
    case False
    then have "i = 0"
      using find_hour_loop_no_match [OF found [unfolded find_current_hour_index_def]] by simp
    with False assms show ?thesis by simp
  qed
  have indexing: "extract_current_weather rt data now \<noteq> Inl IndexError"
    if h: "p_hourly data = Some hourly \<and> h_time hourly = Some tms
             \<and> same_length (h_apparent_temperature hourly) (length tms)
             \<and> same_length (h_relativehumidity_2m hourly) (length tms)
             \<and> same_length (h_windspeed_10m hourly) (length tms)" for hourly
  proof -
    have no_index: "find_current_hour_index rt tms now \<noteq> Inl IndexError"
      using find_hour_loop_error [of rt now tms 0 IndexError]
      by (auto simp: find_current_hour_index_def)
    have lt: "i < length tms" if "find_current_hour_index rt tms now = Inr i" for i
      using range [OF that] by simp
    show ?thesis
      unfolding extract_current_weather_def
      using h no_index
      by (intro and_then_not_IndexError py_item_not_IndexError py_index_no_error)
         (auto simp: py_item_def dest: lt)
  qed
  from returns range indexing show ?thesis by blast
qed

theorem find_current_hour_index_in_range_witness:
  "example_times \<noteq> []
   \<and> list_all (\<lambda>t. fromisoformat example_runtime t \<noteq> None) example_times
   \<and> find_current_hour_index example_runtime example_times example_now = Inr 1
   \<and> hour_matches example_runtime example_now (example_times ! 1)
   \<and> \<not> hour_matches example_runtime example_now (example_times ! 0)
   \<and> extract_current_weather example_runtime example_payload example_now \<noteq> Inl IndexError"
proof -
  have ne: "example_times \<noteq> []" by (simp add: example_times_def)
  note range = find_current_hour_index_in_range
    [OF ne, of example_runtime example_now example_payload]
  have parse: "list_all (\<lambda>t. fromisoformat example_runtime t \<noteq> None) example_times"
    by (simp add: example_times_def example_parse)
  then have "\<forall>t\<in>set example_times. fromisoformat example_runtime t \<noteq> None"
    by (simp add: list_all_iff)
  with range obtain i where
    i: "find_current_hour_index example_runtime example_times example_now = Inr i"
    by blast
  have m1: "hour_matches example_runtime example_now (example_times ! 1)"
    by (simp add: hour_matches_def example_times_def example_parse example_now_def date_of_def)
  have m0: "\<not> hour_matches example_runtime example_now (example_times ! 0)"
    by (simp add: hour_matches_def example_times_def example_parse example_now_def date_of_def)
  have ex: "\<exists>t\<in>set example_times. hour_matches example_runtime example_now t"
    using m1 by (auto simp: example_times_def)
  from range i ex have first:
    "hour_matches example_runtime example_now (example_times ! i)"
    "\<forall>j<i. \<not> hour_matches example_runtime example_now (example_times ! j)"
    by (metis (no_types, lifting))+
  from first(2) m1 have "i \<le> 1" by (meson not_less)
  moreover from first(1) m0 have "i \<noteq> 0" by (cases "i = 0") simp_all
  ultimately have "i = 1" by simp
  have hourly: "p_hourly example_payload = Some example_hourly
      \<and> h_time example_hourly = Some example_times
      \<and> same_length (h_apparent_temperature example_hourly) (length example_times)
      \<and> same_length (h_relativehumidity_2m example_hourly) (length example_times)
      \<and> same_length (h_windspeed_10m example_hourly) (length example_times)"
    by (simp add: example_payload_def example_hourly_def same_length_def example_times_def)
  with range have "extract_current_weather example_runtime example_payload example_now
                   \<noteq> Inl IndexError"
    by blast
  with ne parse i \<open>i = 1\<close> m1 m0 show ?thesis by simp
qed

section \<open>Formatter: the rain outlook\<close>

lemma py_gt0_True: "py_gt0 v = Inr True \<longleftrightarrow> (\<exists>f. num_val v = Inr f \<and> float_lt (FNum 0) f)"
  by (cases v) (auto simp: py_gt0_def)

lemma py_gt0_Inr: "py_gt0 v = Inr b \<Longrightarrow> \<exists>f. num_val v = Inr f \<and> b = float_lt (FNum 0) f"
  by (cases v) (auto simp: py_gt0_def)

lemma float_lt_not_nan: "float_lt a b \<Longrightarrow> a \<noteq> FNaN \<and> b \<noteq> FNaN"
  by (cases a; cases b) auto

lemma float_lt_trans: "float_lt a b \<Longrightarrow> float_lt b c \<Longrightarrow> float_lt a c"
  by (cases a; cases b; cases c) auto

lemma float_lt_below: "float_lt a c \<Longrightarrow> \<not> float_lt b c \<Longrightarrow> b \<noteq> FNaN \<Longrightarrow> float_lt a b"
  by (cases a; cases b; cases c) auto

lemma num_val_nan: "num_val v = Inr FNaN \<longleftrightarrow> v = PFloat FNaN"
  by (cases v) auto

lemma rain_loop_state:
  "rain_loop rt now rows (probs, start, tot) = Inr (probs', start', tot') \<Longrightarrow>
   probs' = probs @ map (\<lambda>row. fst (snd row)) (filter (\<lambda>row. future_today rt now (fst row)) rows)
   \<and> (\<forall>row\<in>set rows. future_today rt now (fst row) \<longrightarrow> (\<exists>f. num_val (fst (snd row)) = Inr f))
   \<and> start' = (case start of Some d \<Rightarrow> Some d | None \<Rightarrow> rain_start_of rt now rows)"
proof (induction rows arbitrary: probs start tot)
  case Nil
  then show ?case by (simp add: rain_start_of_def split: option.splits)
next
  case (Cons row rows)
  obtain t prob precip where row: "row = (t, prob, precip)" by (cases row)
  from Cons.prems row obtain dt where dt: "fromisoformat rt t = Some dt"
    by (auto split: option.splits)
  show ?case
  proof (cases "date_of dt = date_of now \<and> dt_ge dt now")
    case False
    then have nf: "\<not> future_today rt now t" by (simp add: future_today_def dt)
    from Cons.prems row dt False
    have "rain_loop rt now rows (probs, start, tot) = Inr (probs', start', tot')"
      by (auto split: if_splits)
    from Cons.IH [OF this] nf row show ?thesis
      by (auto simp: rain_start_of_def rainy_row_def split: option.splits)
  next
    case True
    then have f: "future_today rt now t" by (simp add: future_today_def dt)
    from Cons.prems row dt True obtain tot1 positive where
      add: "py_add rt tot precip = Inr tot1" and
      pos: "py_gt0 prob = Inr positive" and
      rest: "rain_loop rt now rows
               (probs @ [prob], if positive \<and> start = None then Some dt else start, tot1)
             = Inr (probs', start', tot')"
      by (auto simp: and_then_eq_Inr split: if_splits)
    from py_gt0_Inr [OF pos] obtain r where r: "num_val prob = Inr r"
      by blast
    have rainy: "rainy_row rt now row \<longleftrightarrow> positive"
      using f pos row by (auto simp: rainy_row_def)
    from Cons.IH [OF rest] f row r rainy dt show ?thesis
      by (auto simp: rain_start_of_def split: option.splits)
  qed
qed

lemma max_loop_positive:
  "num_val m = Inr fm \<Longrightarrow> \<forall>x\<in>set xs. \<exists>f. num_val x = Inr f \<Longrightarrow>
   \<exists>top b. max_loop m xs = Inr top \<and> py_gt0 top = Inr b
       \<and> (b \<longleftrightarrow> fm \<noteq> FNaN \<and> (\<exists>x\<in>set (m # xs). py_gt0 x = Inr True))"
proof (induction xs arbitrary: m fm)
  case Nil
  have "py_gt0 m = Inr (float_lt (FNum 0) fm)"
    using Nil.prems(1) by (simp add: py_gt0_def)
  moreover have "float_lt (FNum 0) fm \<longleftrightarrow> fm \<noteq> FNaN \<and> py_gt0 m = Inr True"
    using Nil.prems(1) float_lt_not_nan [of "FNum 0" fm] by (auto simp: py_gt0_def)
  ultimately show ?case by auto
next
  case (Cons x xs)
  from Cons.prems(2) obtain fx where fx: "num_val x = Inr fx" by auto
  from Cons.prems(2) have rest: "\<forall>y\<in>set xs. \<exists>f. num_val y = Inr f" by auto
  have pm: "py_gt0 m = Inr True \<longleftrightarrow> float_lt (FNum 0) fm"
    using Cons.prems(1) by (simp add: py_gt0_def)
  have px: "py_gt0 x = Inr True \<longleftrightarrow> float_lt (FNum 0) fx"
    using fx by (simp add: py_gt0_def)
  show ?case
  proof (cases "float_lt fm fx")
    case True
    from Cons.IH [OF fx rest] obtain top b where
      top: "max_loop x xs = Inr top" "py_gt0 top = Inr b"
        "b \<longleftrightarrow> fx \<noteq> FNaN \<and> (\<exists>y\<in>set (x # xs). py_gt0 y = Inr True)"
      by blast
    from True have nn: "fm \<noteq> FNaN" "fx \<noteq> FNaN" using float_lt_not_nan by blast+
    have "py_gt0 m = Inr True \<Longrightarrow> py_gt0 x = Inr True"
      using True pm px float_lt_trans by blast
    with top nn have "b \<longleftrightarrow> fm \<noteq> FNaN \<and> (\<exists>y\<in>set (m # x # xs). py_gt0 y = Inr True)"
      by auto
    with top(1,2) True fx Cons.prems(1) show ?thesis by auto
  next
    case False
    from Cons.IH [OF Cons.prems(1) rest] obtain top b where
      top: "max_loop m xs = Inr top" "py_gt0 top = Inr b"
        "b \<longleftrightarrow> fm \<noteq> FNaN \<and> (\<exists>y\<in>set (m # xs). py_gt0 y = Inr True)"
      by blast
    have "fm \<noteq> FNaN \<Longrightarrow> py_gt0 x = Inr True \<Longrightarrow> py_gt0 m = Inr True"
      using False pm px float_lt_below by blast
    with top(3) have "b \<longleftrightarrow> fm \<noteq> FNaN \<and> (\<exists>y\<in>set (m # x # xs). py_gt0 y = Inr True)"
      by auto
    with top(1,2) False fx Cons.prems(1) show ?thesis by auto
  qed
qed

lemma py_max_positive:
  assumes "xs \<noteq> []" and "\<forall>x\<in>set xs. \<exists>f. num_val x = Inr f"
  shows "\<exists>top b. py_max xs = Inr top \<and> py_gt0 top = Inr b
           \<and> (b \<longleftrightarrow> hd xs \<noteq> PFloat FNaN \<and> (\<exists>x\<in>set xs. py_gt0 x = Inr True))"
proof -
  from assms(1) obtain m ms where xs: "xs = m # ms" by (cases xs) auto
  from assms(2) xs obtain fm where fm: "num_val m = Inr fm" by auto
  from assms(2) xs have "\<forall>x\<in>set ms. \<exists>f. num_val x = Inr f" by auto
  from max_loop_positive [OF fm this] obtain top b where
    top: "max_loop m ms = Inr top" "py_gt0 top = Inr b"
      "b \<longleftrightarrow> fm \<noteq> FNaN \<and> (\<exists>x\<in>set (m # ms). py_gt0 x = Inr True)"
    by blast
  have "fm \<noteq> FNaN \<longleftrightarrow> m \<noteq> PFloat FNaN"
    using fm num_val_nan [of m] by auto
  with top xs show ?thesis by auto
qed

lemma rain_lines_shape:
  "rain_lines rt st = Inr lines \<Longrightarrow> lines = [] \<or> (length lines = 4 \<and> last lines = [])"
  by (cases st) (auto simp: rain_lines_def and_then_eq_Inr split: if_splits)

lemma py_add_amount:
  assumes "float_of_int rt 0 \<noteq> None" and "tot = PInt 0 \<or> is_float tot"
    and "is_float b \<or> b = PInt 0"
  shows "\<exists>c. py_add rt tot b = Inr c \<and> (c = PInt 0 \<or> is_float c)"
  using assms by (cases tot; cases b) (auto simp: is_float_def to_float_def)

lemma py_format_1f_amount:
  assumes "float_of_int rt 0 \<noteq> None" and "tot = PInt 0 \<or> is_float tot"
  shows "\<exists>shown. py_format_1f rt tot = Inr shown"
  using assms by (cases tot) (auto simp: is_float_def to_float_def)

lemma py_gt0_number: "v \<noteq> PNone \<Longrightarrow> \<exists>b. py_gt0 v = Inr b"
  by (cases v) (auto simp: py_gt0_def)

lemma rain_loop_returns:
  "rows_readable rt now rows \<Longrightarrow> float_of_int rt 0 \<noteq> None \<Longrightarrow> tot = PInt 0 \<or> is_float tot \<Longrightarrow>
   \<exists>probs' start' tot'. rain_loop rt now rows (probs, start, tot) = Inr (probs', start', tot')
      \<and> (tot' = PInt 0 \<or> is_float tot')"
proof (induction rows arbitrary: probs start tot)
  case Nil
  then show ?case by simp
next
  case (Cons row rows)
  obtain t prob precip where row: "row = (t, prob, precip)" by (cases row)
  from Cons.prems(1) row obtain dt where dt: "fromisoformat rt t = Some dt"
    by (auto simp: rows_readable_def)
  from Cons.prems(1) have rest: "rows_readable rt now rows"
    by (simp add: rows_readable_def)
  show ?case
  proof (cases "date_of dt = date_of now \<and> dt_ge dt now")
    case False
    with Cons.IH [OF rest Cons.prems(2,3), of probs start] row dt show ?thesis by auto
  next
    case True
    then have "future_today rt now t" by (simp add: future_today_def dt)
    with Cons.prems(1) row have num: "prob \<noteq> PNone" "is_float precip \<or> precip = PInt 0"
      by (auto simp: rows_readable_def)
    from py_add_amount [OF Cons.prems(2,3) num(2)] obtain tot1 where
      add: "py_add rt tot precip = Inr tot1" "tot1 = PInt 0 \<or> is_float tot1" by blast
    from py_gt0_number [OF num(1)] obtain positive where pos: "py_gt0 prob = Inr positive"
      by blast
    from Cons.IH [OF rest Cons.prems(2) add(2)] row dt True add pos show ?thesis by auto
  qed
qed

lemma find_rainy_start:
  assumes "\<exists>row\<in>set rows. rainy_row rt now row"
  shows "\<exists>dt. rain_start_of rt now rows = Some dt"
proof -
  from assms have "find (rainy_row rt now) rows \<noteq> None"
    by (auto simp: find_None_iff)
  then obtain row where f: "find (rainy_row rt now) rows = Some row" by blast
  then have "rainy_row rt now row" by (auto simp: find_Some_iff)
  with f show ?thesis
    by (auto simp: rain_start_of_def rainy_row_def future_today_def split: option.splits)
qed

lemma rain_final:
  assumes loop: "rain_loop rt now rows ([], None, PInt 0) = Inr st"
  shows "(float_of_int rt 0 \<noteq> None \<and> rows_readable rt now rows
            \<longrightarrow> (\<exists>lines. rain_lines rt st = Inr lines))
       \<and> (\<forall>lines. rain_lines rt st = Inr lines \<longrightarrow>
            (lines \<noteq> [] \<longleftrightarrow>
               (\<exists>row\<in>set rows. rainy_row rt now row) \<and> \<not> nan_leads rt now rows)
            \<and> (lines \<noteq> [] \<longrightarrow>
                 (\<exists>dt. rain_start_of rt now rows = Some dt
                    \<and> lines ! 1 = [0x23F1, 0xFE0F] @ ascii '' Expected rain start: ''
                                  @ strftime_IMp dt)))"
proof -
  obtain probs' start' tot' where st: "st = (probs', start', tot')" by (cases st)
  from rain_loop_state [OF loop [unfolded st]]
  have probs: "probs' = map (\<lambda>row. fst (snd row))
                          (filter (\<lambda>row. future_today rt now (fst row)) rows)"
    and nums: "\<forall>row\<in>set rows. future_today rt now (fst row)
                 \<longrightarrow> (\<exists>f. num_val (fst (snd row)) = Inr f)"
    and start: "start' = rain_start_of rt now rows"
    by auto
  have rainy_iff: "(\<exists>x\<in>set probs'. py_gt0 x = Inr True) \<longleftrightarrow> (\<exists>row\<in>set rows. rainy_row rt now row)"
    unfolding probs by (force simp: rainy_row_def)
  have all_num: "\<forall>x\<in>set probs'. \<exists>f. num_val x = Inr f"
    unfolding probs using nums by auto
  show ?thesis
  proof (cases probs')
    case Nil
    with rainy_iff st show ?thesis by (auto simp: rain_lines_def)
  next
    case (Cons p ps)
    have ne: "probs' \<noteq> []" using Cons by simp
    from py_max_positive [OF ne all_num] obtain top b where
      top: "py_max probs' = Inr top" "py_gt0 top = Inr b"
        "b \<longleftrightarrow> hd probs' \<noteq> PFloat FNaN \<and> (\<exists>x\<in>set probs'. py_gt0 x = Inr True)"
      by blast
    have lead: "hd probs' = PFloat FNaN \<longleftrightarrow> nan_leads rt now rows"
      using ne unfolding probs nan_leads_def
      by (cases "filter (\<lambda>row. future_today rt now (fst row)) rows") simp_all
    have b: "b \<longleftrightarrow> (\<exists>row\<in>set rows. rainy_row rt now row) \<and> \<not> nan_leads rt now rows"
      using top(3) rainy_iff lead by auto
    have fmt: "\<exists>shown. py_format_1f rt tot' = Inr shown"
      if "float_of_int rt 0 \<noteq> None" "rows_readable rt now rows"
    proof -
      from rain_loop_returns [OF that(2,1), of "PInt 0" "[]" None] loop st
      have "tot' = PInt 0 \<or> is_float tot'" by auto
      with that(1) show ?thesis by (rule py_format_1f_amount)
    qed
    show ?thesis
    proof (cases b)
      case False
      with top b st Cons show ?thesis by (auto simp: rain_lines_def)
    next
      case True
      with b find_rainy_start obtain dt where dt: "rain_start_of rt now rows = Some dt"
        by blast
      from True top b st Cons dt start fmt show ?thesis
        by (auto simp: rain_lines_def and_then_eq_Inr)
    qed
  qed
qed

lemma rain_block_iff:
  assumes "build_today_rain_info rt hourly now = Inr lines"
  shows "lines \<noteq> [] \<longleftrightarrow>
           (\<exists>row\<in>set (rain_rows hourly). rainy_row rt now row)
           \<and> \<not> nan_leads rt now (rain_rows hourly)"
proof -
  from assms obtain tms where tms: "h_time hourly = Some tms"
    by (cases "h_time hourly") (simp_all add: build_today_rain_info_def py_item_def)
  have build: "build_today_rain_info rt hourly now =
                 and_then (rain_loop rt now (rain_rows hourly) ([], None, PInt 0)) (rain_lines rt)"
    using tms by (simp add: build_today_rain_info_def py_item_def rain_rows_def Let_def)
  with assms obtain st where
    st: "rain_loop rt now (rain_rows hourly) ([], None, PInt 0) = Inr st"
      "rain_lines rt st = Inr lines"
    by (auto simp: and_then_eq_Inr)
  from rain_final [OF st(1)] st(2) show ?thesis by blast
qed

text \<open>
  Claim C3, amended. Python's \<open>max\<close> keeps a NaN that stands first, and no number is above
  NaN. So the block that \<open>build_today_rain_info\<close> returns is non-empty exactly when some
  row of today, not before \<open>now\<close>, has a probability above 0 and the first row of today,
  not before \<open>now\<close>, has not the probability NaN. The second line of a non-empty block
  reports the timestamp of the first row with a probability above 0. (The line
  \<open>None predicted\<close> needs a non-empty block without such a row, so no returned block holds
  it.) The builder returns when the runtime converts the integer 0 and the rows are
  readable.
\<close>

theorem build_today_rain_info_outlook:
  "(h_time hourly \<noteq> None \<and> float_of_int rt 0 \<noteq> None
      \<and> rows_readable rt now (rain_rows hourly)
      \<longrightarrow> (\<exists>lines. build_today_rain_info rt hourly now = Inr lines))
   \<and> (\<forall>lines. build_today_rain_info rt hourly now = Inr lines \<longrightarrow>
        (lines \<noteq> [] \<longleftrightarrow>
           (\<exists>row\<in>set (rain_rows hourly). rainy_row rt now row)
           \<and> \<not> nan_leads rt now (rain_rows hourly))
        \<and> (lines \<noteq> [] \<longrightarrow>
             (\<exists>dt. rain_start_of rt now (rain_rows hourly) = Some dt
                \<and> lines ! 1 = [0x23F1, 0xFE0F] @ ascii '' Expected rain start: ''
                              @ strftime_IMp dt)))"
proof (cases "h_time hourly")
  case None
  then show ?thesis by (simp add: build_today_rain_info_def py_item_def)
next
  case (Some tms)
  let ?rows = "rain_rows hourly"
  have build: "build_today_rain_info rt hourly now =
                 and_then (rain_loop rt now ?rows ([], None, PInt 0)) (rain_lines rt)"
    using Some by (simp add: build_today_rain_info_def py_item_def rain_rows_def Let_def)
  show ?thesis
  proof (cases "rain_loop rt now ?rows ([], None, PInt 0)")
    case (Inl e)
    have "\<not> (float_of_int rt 0 \<noteq> None \<and> rows_readable rt now ?rows)"
      using rain_loop_returns [of rt now ?rows "PInt 0" "[]" None] Inl by auto
    with Inl build show ?thesis by auto
  next
    case (Inr st)
    from rain_final [OF Inr] build Inr Some show ?thesis by simp
  qed
qed

theorem build_today_rain_info_outlook_witness:
  "h_time example_hourly \<noteq> None
   \<and> float_of_int example_runtime 0 = Some (FNum 0)
   \<and> rows_readable example_runtime example_now (rain_rows example_hourly)
   \<and> list_ex (rainy_row example_runtime example_now) (rain_rows example_hourly)
   \<and> \<not> nan_leads example_runtime example_now (rain_rows example_hourly)
   \<and> (\<exists>lines. build_today_rain_info example_runtime example_hourly example_now = Inr lines
         \<and> lines \<noteq> []
         \<and> lines ! 1 = [0x23F1, 0xFE0F] @ ascii '' Expected rain start: 03:00 PM'')
   \<and> rows_readable example_runtime example_late (rain_rows example_hourly)
   \<and> \<not> list_ex (rainy_row example_runtime example_late) (rain_rows example_hourly)
   \<and> build_today_rain_info example_runtime example_hourly example_late = Inr []"
proof -
  have key: "h_time example_hourly \<noteq> None" by (simp add: example_hourly_def)
  note now = build_today_rain_info_outlook [of example_hourly example_runtime example_now]
  note late = build_today_rain_info_outlook [of example_hourly example_runtime example_late]
  have zero: "float_of_int example_runtime 0 \<noteq> None"
    by (simp add: example_runtime_fields)
  from now [THEN conjunct1] key zero example_rows_readable(1) obtain lines where
    lines: "build_today_rain_info example_runtime example_hourly example_now = Inr lines"
    by blast
  have rainy: "\<exists>row\<in>set (rain_rows example_hourly). rainy_row example_runtime example_now row"
    using example_rainy(1) by (simp add: list_ex_iff)
  from now [THEN conjunct2, THEN spec, THEN mp, OF lines]
  have shape: "lines \<noteq> [] \<longleftrightarrow>
                 (\<exists>row\<in>set (rain_rows example_hourly). rainy_row example_runtime example_now row)
                 \<and> \<not> nan_leads example_runtime example_now (rain_rows example_hourly)"
    and start: "lines \<noteq> [] \<longrightarrow>
                 (\<exists>dt. rain_start_of example_runtime example_now (rain_rows example_hourly)
                         = Some dt
                    \<and> lines ! 1 = [0x23F1, 0xFE0F] @ ascii '' Expected rain start: ''
                                  @ strftime_IMp dt)"
    by simp_all
  from shape rainy example_no_nan have ne: "lines \<noteq> []" by simp
  with start obtain dt where
    dt: "rain_start_of example_runtime example_now (rain_rows example_hourly) = Some dt"
      "lines ! 1 = [0x23F1, 0xFE0F] @ ascii '' Expected rain start: '' @ strftime_IMp dt"
    by blast
  from dt(1) have "dt = \<lparr>year = 2024, month = 5, day = 1, hour = 15, minute = 0, second = 0,
                           microsecond = 0\<rparr>"
    by (simp add: example_rainy(3))
  with dt(2) have second:
    "lines ! 1 = [0x23F1, 0xFE0F] @ ascii '' Expected rain start: 03:00 PM''"
    by (simp add: strftime_IMp_def two_digits_def ascii_def)
  from late [THEN conjunct1] key zero example_rows_readable(2) obtain dry where
    dry: "build_today_rain_info example_runtime example_hourly example_late = Inr dry"
    by blast
  have no_rain:
    "\<not> (\<exists>row\<in>set (rain_rows example_hourly). rainy_row example_runtime example_late row)"
    using example_rainy(2) by (simp add: list_ex_iff)
  from late [THEN conjunct2, THEN spec, THEN mp, OF dry]
  have "dry \<noteq> [] \<longleftrightarrow>
          (\<exists>row\<in>set (rain_rows example_hourly). rainy_row example_runtime example_late row)
          \<and> \<not> nan_leads example_runtime example_late (rain_rows example_hourly)"
    by simp
  with no_rain have "dry = []" by simp
  with dry have d: "build_today_rain_info example_runtime example_hourly example_late = Inr []"
    by simp
  have ex: "\<exists>lines. build_today_rain_info example_runtime example_hourly example_now = Inr lines
         \<and> lines \<noteq> []
         \<and> lines ! 1 = [0x23F1, 0xFE0F] @ ascii '' Expected rain start: 03:00 PM''"
    using lines ne second by blast
  show ?thesis
    by (intro conjI key example_runtime_fields(4) example_rows_readable example_rainy(1)
        example_rainy(2) example_no_nan ex d)
qed

text \<open>
  With the probabilities NaN at 14:00 and 50 at 15:00, both of today and after \<open>now\<close>, the
  block is empty although a row has a probability above 0.
\<close>

theorem rain_outlook_nan_counterexample:
  "build_today_rain_info example_runtime nan_hourly example_now = Inr []
   \<and> list_ex (rainy_row example_runtime example_now) (rain_rows nan_hourly)"
  by (simp add: nan_hourly_rain)

text \<open>
  Claim C10. A block that \<open>build_today_rain_info\<close> returns is empty, or has exactly four
  lines, the last of which is the empty string; it never has one, two or three lines.
\<close>

theorem build_today_rain_info_block:
  assumes "build_today_rain_info rt hourly now = Inr lines"
  shows "(lines = [] \<or> (length lines = 4 \<and> last lines = []))
         \<and> length lines \<noteq> 1 \<and> length lines \<noteq> 2 \<and> length lines \<noteq> 3"
proof -
  from assms obtain st where "rain_lines rt st = Inr lines"
    by (auto simp: build_today_rain_info_def and_then_eq_Inr Let_def)
  from rain_lines_shape [OF this] show ?thesis by auto
qed

theorem build_today_rain_info_block_witness:
  "build_today_rain_info example_runtime example_hourly example_now
     = Inr [[0x1F327, 0xFE0F] @ ascii '' Chance of rain today: ''
              @ span_fg FG_TEXT (ascii ''40%''),
            [0x23F1, 0xFE0F] @ ascii '' Expected rain start: 03:00 PM'',
            [0x2614] @ ascii '' Total predicted rain: 2.0 mm'',
            []]
   \<and> length [[0x1F327, 0xFE0F] @ ascii '' Chance of rain today: ''
              @ span_fg FG_TEXT (ascii ''40%''),
            [0x23F1, 0xFE0F] @ ascii '' Expected rain start: 03:00 PM'',
            [0x2614] @ ascii '' Total predicted rain: 2.0 mm'',
            ([]::pystr)] = 4"
  using build_today_rain_info_block [OF example_rain] example_rain by simp

section \<open>Formatter: the hours of a day\<close>

lemma hourly_loop_lines:
  "hourly_loop rt now for_date rows lines = Inr out \<Longrightarrow>
   map Inr out = map Inr lines @ map (row_line rt) (filter (hour_kept rt now for_date) rows)"
proof (induction rows arbitrary: lines)
  case Nil
  then show ?case by simp
next
  case (Cons row rows)
  obtain t temp code where row: "row = (t, temp, code)" by (cases row)
  from Cons.prems row obtain dt where dt: "fromisoformat rt t = Some dt"
    by (auto split: option.splits)
  show ?case
  proof (cases "hour_kept rt now for_date row")
    case False
    with Cons.prems row dt have "hourly_loop rt now for_date rows lines = Inr out"
      by (auto simp: hour_kept_def split: if_splits)
    from Cons.IH [OF this] False show ?thesis by simp
  next
    case True
    with Cons.prems row dt obtain line where
      line: "hourly_line rt dt temp code = Inr line" and
      rest: "hourly_loop rt now for_date rows (lines @ [line]) = Inr out"
      by (auto simp: hour_kept_def and_then_eq_Inr split: if_splits)
    from line row dt have "row_line rt row = Inr line" by (simp add: row_line_def)
    with Cons.IH [OF rest] True show ?thesis by simp
  qed
qed

lemma hourly_line_returns: "temp \<noteq> PNone \<Longrightarrow> \<exists>line. hourly_line rt dt temp code = Inr line"
  by (cases temp) (auto simp: hourly_line_def temp_to_color_def Let_def)

lemma hourly_loop_returns:
  "list_all (\<lambda>row. fromisoformat rt (fst row) \<noteq> None
                \<and> (hour_kept rt now for_date row \<longrightarrow> fst (snd row) \<noteq> PNone)) rows \<Longrightarrow>
   \<exists>out. hourly_loop rt now for_date rows lines = Inr out"
proof (induction rows arbitrary: lines)
  case Nil
  then show ?case by simp
next
  case (Cons row rows)
  obtain t temp code where row: "row = (t, temp, code)" by (cases row)
  from Cons.prems row obtain dt where dt: "fromisoformat rt t = Some dt" by auto
  from Cons.prems have rest:
    "list_all (\<lambda>row. fromisoformat rt (fst row) \<noteq> None
                \<and> (hour_kept rt now for_date row \<longrightarrow> fst (snd row) \<noteq> PNone)) rows"
    by simp
  show ?case
  proof (cases "hour_kept rt now for_date row")
    case False
    with Cons.IH [OF rest, of lines] row dt show ?thesis
      by (auto simp: hour_kept_def)
  next
    case True
    with Cons.prems row have "temp \<noteq> PNone" by simp
    from hourly_line_returns [OF this] obtain line where
      "hourly_line rt dt temp code = Inr line" by blast
    with Cons.IH [OF rest, of "lines @ [line]"] True row dt show ?thesis
      by (auto simp: hour_kept_def)
  qed
qed

lemma hour_kept_today: "hour_kept rt now (date_of now) = remaining_today rt now"
  by (rule ext) (simp add: hour_kept_def remaining_today_def split: option.splits)

lemma build_hourly_forecast_rows:
  assumes "build_hourly_forecast rt hourly now for_date = Inr lines"
  shows "\<exists>out. hourly_loop rt now for_date (hourly_rows hourly) [] = Inr out
      \<and> lines = (if out \<noteq> [] then out else [ascii ''Hourly forecast unavailable''])"
proof -
  from assms obtain tms where tms: "h_time hourly = Some tms"
    by (cases "h_time hourly") (simp_all add: build_hourly_forecast_def py_item_def)
  from assms tms obtain temps where temps: "h_temperature_2m hourly = Some temps"
    by (cases "h_temperature_2m hourly") (simp_all add: build_hourly_forecast_def py_item_def)
  from assms tms temps obtain codes where codes: "h_weathercode hourly = Some codes"
    by (cases "h_weathercode hourly") (simp_all add: build_hourly_forecast_def py_item_def)
  have rows: "hourly_rows hourly = zip tms (zip temps codes)"
    by (simp add: hourly_rows_def tms temps codes)
  from assms obtain out where
    "hourly_loop rt now for_date (zip tms (zip temps codes)) [] = Inr out"
    "lines = (if out \<noteq> [] then out else [ascii ''Hourly forecast unavailable''])"
    by (cases "hourly_loop rt now for_date (zip tms (zip temps codes)) []")
       (simp_all add: build_hourly_forecast_def py_item_def tms temps codes)
  then show ?thesis
    unfolding rows by blast
qed

text \<open>
  Claim C4. For today's date \<open>build_hourly_forecast\<close> returns on every payload whose rows
  are readable; what it returns is never empty: the lines of exactly the rows of today
  whose timestamp is not strictly before \<open>now\<close>, in their order, or the one placeholder
  line when no row is such.
\<close>

theorem build_hourly_forecast_today:
  "(h_time hourly \<noteq> None \<and> h_temperature_2m hourly \<noteq> None \<and> h_weathercode hourly \<noteq> None
      \<and> hourly_readable rt now (hourly_rows hourly)
      \<longrightarrow> (\<exists>lines. build_hourly_forecast rt hourly now (date_of now) = Inr lines))
   \<and> (\<forall>lines. build_hourly_forecast rt hourly now (date_of now) = Inr lines \<longrightarrow>
        lines \<noteq> []
        \<and> (filter (remaining_today rt now) (hourly_rows hourly) = []
             \<longrightarrow> lines = [ascii ''Hourly forecast unavailable''])
        \<and> (filter (remaining_today rt now) (hourly_rows hourly) \<noteq> []
             \<longrightarrow> map Inr lines
                  = map (row_line rt) (filter (remaining_today rt now) (hourly_rows hourly))))"
proof -
  let ?rows = "hourly_rows hourly"
  let ?kept = "filter (remaining_today rt now) ?rows"
  have returns: "\<exists>lines. build_hourly_forecast rt hourly now (date_of now) = Inr lines"
    if keys: "h_time hourly \<noteq> None \<and> h_temperature_2m hourly \<noteq> None
              \<and> h_weathercode hourly \<noteq> None"
      and ok: "hourly_readable rt now ?rows"
  proof -
    from ok have "\<exists>out. hourly_loop rt now (date_of now) ?rows [] = Inr out"
      unfolding hourly_readable_def hour_kept_today [symmetric]
      by (rule hourly_loop_returns)
    then obtain out where out: "hourly_loop rt now (date_of now) ?rows [] = Inr out"
      by blast
    from keys obtain tms temps codes where
      k: "h_time hourly = Some tms" "h_temperature_2m hourly = Some temps"
        "h_weathercode hourly = Some codes"
      by auto
    have rows: "?rows = zip tms (zip temps codes)"
      by (simp add: hourly_rows_def k)
    from out show ?thesis
      unfolding rows by (simp add: build_hourly_forecast_def py_item_def k)
  qed
  have shape: "lines \<noteq> []
        \<and> (?kept = [] \<longrightarrow> lines = [ascii ''Hourly forecast unavailable''])
        \<and> (?kept \<noteq> [] \<longrightarrow> map Inr lines = map (row_line rt) ?kept)"
    if "build_hourly_forecast rt hourly now (date_of now) = Inr lines" for lines
  proof -
    from build_hourly_forecast_rows [OF that] obtain out where
      out: "hourly_loop rt now (date_of now) ?rows [] = Inr out"
        "lines = (if out \<noteq> [] then out else [ascii ''Hourly forecast unavailable''])"
      by blast
    from hourly_loop_lines [OF out(1)]
    have m: "map Inr out = map (row_line rt) ?kept"
      by (simp add: hour_kept_today)
    then have "length out = length ?kept"
      by (metis length_map)
    then have e: "out = [] \<longleftrightarrow> ?kept = []" by (metis length_0_conv)
    show ?thesis
    proof (cases "out = []")
      case True
      with e out(2) show ?thesis by simp
    next
      case False
      with e out(2) m show ?thesis by simp
    qed
  qed
  from returns shape show ?thesis by blast
qed

theorem build_hourly_forecast_today_witness:
  "h_time example_hourly \<noteq> None \<and> h_temperature_2m example_hourly \<noteq> None
   \<and> h_weathercode example_hourly \<noteq> None
   \<and> hourly_readable example_runtime example_now (hourly_rows example_hourly)
   \<and> build_hourly_forecast example_runtime example_hourly example_now (date_of example_now)
       = Inr [ascii ''14:00 - '' @ span_fg (ascii ''#99d1db'') (ascii ''21'' @ deg_C)
                @ ascii '' '' @ [0x1F327, 0xFE0F] @ ascii '' Slight rain'',
              ascii ''15:00 - '' @ span_fg (ascii ''#99d1db'') (ascii ''20'' @ deg_C)
                @ ascii '' '' @ [0x1F327, 0xFE0F] @ ascii '' Mod rain'']
   \<and> hourly_readable example_runtime example_late (hourly_rows example_hourly)
   \<and> filter (remaining_today example_runtime example_late) (hourly_rows example_hourly) = []
   \<and> build_hourly_forecast example_runtime example_hourly example_late (date_of example_late)
       = Inr [ascii ''Hourly forecast unavailable'']"
proof -
  note now = build_hourly_forecast_today [of example_hourly example_runtime example_now]
  note late = build_hourly_forecast_today [of example_hourly example_runtime example_late]
  from now [THEN conjunct1] example_hourly_keys example_hourly_readable(1) obtain lines where
    lines: "build_hourly_forecast example_runtime example_hourly example_now
              (date_of example_now) = Inr lines"
    by blast
  from now [THEN conjunct2, THEN spec, THEN mp, OF lines]
  have "filter (remaining_today example_runtime example_now) (hourly_rows example_hourly) \<noteq> []
        \<longrightarrow> map Inr lines
            = map (row_line example_runtime)
                (filter (remaining_today example_runtime example_now)
                   (hourly_rows example_hourly))"
    by simp
  then have "map Inr lines
             = [row_line example_runtime (ascii ''2024-05-01T14:00'', PInt 21, PInt 61),
                row_line example_runtime (ascii ''2024-05-01T15:00'', PInt 20, PInt 63)]"
    by (simp add: example_remaining(1))
  then have l: "lines
      = [ascii ''14:00 - '' @ span_fg (ascii ''#99d1db'') (ascii ''21'' @ deg_C)
           @ ascii '' '' @ [0x1F327, 0xFE0F] @ ascii '' Slight rain'',
         ascii ''15:00 - '' @ span_fg (ascii ''#99d1db'') (ascii ''20'' @ deg_C)
           @ ascii '' '' @ [0x1F327, 0xFE0F] @ ascii '' Mod rain'']"
    unfolding example_row_lines by (auto simp: map_eq_Cons_conv)
  from late [THEN conjunct1] example_hourly_keys example_hourly_readable(2) obtain none where
    none: "build_hourly_forecast example_runtime example_hourly example_late
              (date_of example_late) = Inr none"
    by blast
  from late [THEN conjunct2, THEN spec, THEN mp, OF none]
  have "filter (remaining_today example_runtime example_late) (hourly_rows example_hourly) = []
        \<longrightarrow> none = [ascii ''Hourly forecast unavailable'']"
    by simp
  with example_remaining(2) have n: "none = [ascii ''Hourly forecast unavailable'']" by simp
  show ?thesis
    by (intro conjI example_hourly_keys example_hourly_readable example_remaining(2)
        lines [unfolded l] none [unfolded n])
qed

section \<open>Formatter: tomorrow and the days after\<close>

lemma time_label_nonempty: "map_of TIME_LABELS h = Some label \<Longrightarrow> label \<noteq> []"
  by (auto simp: TIME_LABELS_def ascii_def split: if_splits)

lemma time_label_hours: "map_of TIME_LABELS h \<noteq> None \<longleftrightarrow> h \<in> {6, 12, 15, 18}"
  by (simp add: TIME_LABELS_def)

lemma tomorrow_loop_length:
  "tomorrow_loop rt tomorrow rows lines = Inr out \<Longrightarrow>
   length out = length lines + length (filter (tomorrow_kept rt tomorrow) rows)"
proof (induction rows arbitrary: lines)
  case Nil
  then show ?case by simp
next
  case (Cons row rows)
  obtain t temp code where row: "row = (t, temp, code)" by (cases row)
  from Cons.prems row obtain dt where dt: "fromisoformat rt t = Some dt"
    by (auto split: option.splits)
  show ?case
  proof (cases "date_of dt = tomorrow")
    case False
    with Cons.prems row dt have "tomorrow_loop rt tomorrow rows lines = Inr out" by simp
    from Cons.IH [OF this] False row dt show ?thesis
      by (simp add: tomorrow_kept_def)
  next
    case True
    show ?thesis
    proof (cases "map_of TIME_LABELS (hour dt)")
      case None
      with Cons.prems row dt True have "tomorrow_loop rt tomorrow rows lines = Inr out"
        by simp
      moreover from None have "hour dt \<notin> {6, 12, 15, 18}"
        using time_label_hours [of "hour dt"] by simp
      ultimately show ?thesis
        using Cons.IH [of lines] row dt by (simp add: tomorrow_kept_def)
    next
      case (Some label)
      then have ne: "label \<noteq> []" by (rule time_label_nonempty)
      from Some have h: "hour dt \<in> {6, 12, 15, 18}"
        using time_label_hours [of "hour dt"] by simp
      from Cons.prems row dt True Some ne obtain line where
        "tomorrow_loop rt tomorrow rows (lines @ [line]) = Inr out"
        by (auto simp: and_then_eq_Inr)
      from Cons.IH [OF this] h True row dt show ?thesis
        by (simp add: tomorrow_kept_def)
    qed
  qed
qed

lemma build_tomorrow_forecast_rows:
  assumes "build_tomorrow_forecast rt hourly tomorrow = Inr lines"
  shows "\<exists>out. tomorrow_loop rt tomorrow (hourly_rows hourly) [] = Inr out
      \<and> lines = (if out \<noteq> [] then out else [ascii ''Tomorrow forecast unavailable''])"
proof -
  from assms obtain tms where tms: "h_time hourly = Some tms"
    by (cases "h_time hourly") (simp_all add: build_tomorrow_forecast_def py_item_def)
  from assms tms obtain temps where temps: "h_temperature_2m hourly = Some temps"
    by (cases "h_temperature_2m hourly") (simp_all add: build_tomorrow_forecast_def py_item_def)
  from assms tms temps obtain codes where codes: "h_weathercode hourly = Some codes"
    by (cases "h_weathercode hourly") (simp_all add: build_tomorrow_forecast_def py_item_def)
  have rows: "hourly_rows hourly = zip tms (zip temps codes)"
    by (simp add: hourly_rows_def tms temps codes)
  from assms obtain out where
    "tomorrow_loop rt tomorrow (zip tms (zip temps codes)) [] = Inr out"
    "lines = (if out \<noteq> [] then out else [ascii ''Tomorrow forecast unavailable''])"
    by (cases "tomorrow_loop rt tomorrow (zip tms (zip temps codes)) []")
       (simp_all add: build_tomorrow_forecast_def py_item_def tms temps codes)
  then show ?thesis
    unfolding rows by blast
qed

lemma daily_loop_lines:
  "daily_loop rt dates max_temps min_temps codes idxs lines = Inr out \<Longrightarrow>
   map Inr out = map Inr lines @ map (daily_line rt dates max_temps min_temps codes) idxs"
proof (induction idxs arbitrary: lines)
  case Nil
  then show ?case by simp
next
  case (Cons i idxs)
  from Cons.prems obtain line where
    line: "daily_line rt dates max_temps min_temps codes i = Inr line" and
    rest: "daily_loop rt dates max_temps min_temps codes idxs (lines @ [line]) = Inr out"
    by (auto simp: and_then_eq_Inr)
  from Cons.IH [OF rest] line show ?case by simp
qed

lemma build_daily_forecast_rows:
  assumes "build_daily_forecast rt daily days = Inr lines"
  shows "\<exists>dates max_temps min_temps codes.
           d_time daily = Some dates \<and> d_temperature_2m_max daily = Some max_temps
           \<and> d_temperature_2m_min daily = Some min_temps \<and> d_weathercode daily = Some codes
           \<and> daily_loop rt dates max_temps min_temps codes
                (py_range 1 (min (days + 1) (int (length dates)))) [] = Inr lines"
proof -
  from assms obtain dates where a: "d_time daily = Some dates"
    by (cases "d_time daily") (simp_all add: build_daily_forecast_def py_item_def)
  from assms a obtain max_temps where b: "d_temperature_2m_max daily = Some max_temps"
    by (cases "d_temperature_2m_max daily") (simp_all add: build_daily_forecast_def py_item_def)
  from assms a b obtain min_temps where c: "d_temperature_2m_min daily = Some min_temps"
    by (cases "d_temperature_2m_min daily") (simp_all add: build_daily_forecast_def py_item_def)
  from assms a b c obtain codes where d: "d_weathercode daily = Some codes"
    by (cases "d_weathercode daily") (simp_all add: build_daily_forecast_def py_item_def)
  from assms a b c d show ?thesis
    by (simp add: build_daily_forecast_def py_item_def)
qed

lemma py_range_length: "int (length (py_range 1 (min (days + 1) n))) = max 0 (min days (n - 1))"
  by (auto simp: py_range_def)

text \<open>
  Claim C5, amended. When \<open>build_daily_forecast\<close> returns, the number of its lines is
  \<open>min(days, len(dates) - 1)\<close>, or 0 when that is negative; the lines are those of the
  indices from 1 to \<open>min(days + 1, len(dates)) - 1\<close>, in order, and index 0 is not among
  them.
\<close>

theorem build_daily_forecast_count:
  assumes "build_daily_forecast rt daily days = Inr lines"
  shows "\<exists>dates max_temps min_temps codes.
           d_time daily = Some dates \<and> d_temperature_2m_max daily = Some max_temps
           \<and> d_temperature_2m_min daily = Some min_temps \<and> d_weathercode daily = Some codes
           \<and> int (length lines) = max 0 (min days (int (length dates) - 1))
           \<and> map Inr lines
               = map (daily_line rt dates max_temps min_temps codes)
                   [1 ..< nat (min (days + 1) (int (length dates)))]
           \<and> 0 \<notin> set [1 ..< nat (min (days + 1) (int (length dates)))]"
proof -
  from build_daily_forecast_rows [OF assms] obtain dates max_temps min_temps codes where
    keys: "d_time daily = Some dates" "d_temperature_2m_max daily = Some max_temps"
      "d_temperature_2m_min daily = Some min_temps" "d_weathercode daily = Some codes"
    and loop: "daily_loop rt dates max_temps min_temps codes
                 (py_range 1 (min (days + 1) (int (length dates)))) [] = Inr lines"
    by blast
  from daily_loop_lines [OF loop]
  have m: "map Inr lines = map (daily_line rt dates max_temps min_temps codes)
                             (py_range 1 (min (days + 1) (int (length dates))))"
    by simp
  then have "length lines = length (py_range 1 (min (days + 1) (int (length dates))))"
    by (metis length_map)
  then have n: "int (length lines) = max 0 (min days (int (length dates) - 1))"
    using py_range_length [of days "int (length dates)"] by simp
  have r: "py_range 1 (min (days + 1) (int (length dates)))
           = [1 ..< nat (min (days + 1) (int (length dates)))]"
    by (simp add: py_range_def)
  from keys n m [unfolded r] show ?thesis by simp
qed

theorem build_daily_forecast_count_witness:
  "build_daily_forecast example_runtime example_daily 5
   = Inr [ascii ''Thu '' @ [0x2B06, 0xFE0F] @ span_fg (ascii ''#81c8be'') (ascii ''24'' @ deg_C)
          @ ascii '' '' @ [0x2B07, 0xFE0F] @ span_fg (ascii ''#8caaee'') (ascii ''12'' @ deg_C)
          @ ascii '' '' @ [0x1F327, 0xFE0F] @ ascii '' Slight rain'',
          ascii ''Fri '' @ [0x2B06, 0xFE0F] @ span_fg (ascii ''#99d1db'') (ascii ''19'' @ deg_C)
          @ ascii '' '' @ [0x2B07, 0xFE0F] @ span_fg (ascii ''#8caaee'') (ascii '' 9'' @ deg_C)
          @ ascii '' '' @ [0x2601, 0xFE0F] @ ascii '' Overcast'']
   \<and> d_time example_daily = Some [ascii ''2024-05-01'', ascii ''2024-05-02'', ascii ''2024-05-03'']
   \<and> (2::int) = max 0 (min 5 (int (length [ascii ''2024-05-01'', ascii ''2024-05-02'',
                                              ascii ''2024-05-03'']) - 1))"
  using build_daily_forecast_count [OF example_daily_lines] example_daily_lines
  by (simp add: example_daily_def)

text \<open>
  On empty daily series the builder returns no line, while \<open>min(5, len(dates) - 1)\<close> is
  \<open>-1\<close>: the number of lines is not bounded by it.
\<close>

theorem build_daily_forecast_bound_counterexample:
  "build_daily_forecast example_runtime empty_daily 5 = Inr []
   \<and> d_time empty_daily = Some []
   \<and> \<not> int (length ([]::pystr list)) \<le> min 5 (int (length ([]::pystr list)) - 1)"
  using empty_daily_lines by (simp add: empty_daily_def)

section \<open>Formatter: placeholder lines\<close>

text \<open>
  Claim C2, amended. The hourly and the tomorrow builder never return an empty sequence:
  when no row passes their filter they return their one placeholder line. The rain block
  is empty when no row of today, not before \<open>now\<close>, has a probability above 0. The
  multi-day builder has no placeholder: it returns the empty sequence exactly when the
  requested number of days is not positive or the daily series hold at most one day.
\<close>

theorem builders_placeholder:
  "(\<forall>lines. build_hourly_forecast rt hourly now for_date = Inr lines \<longrightarrow>
      lines \<noteq> []
      \<and> (filter (hour_kept rt now for_date) (hourly_rows hourly) = []
           \<longrightarrow> lines = [ascii ''Hourly forecast unavailable'']))
   \<and> (\<forall>lines. build_tomorrow_forecast rt hourly tomorrow = Inr lines \<longrightarrow>
      lines \<noteq> []
      \<and> (filter (tomorrow_kept rt tomorrow) (hourly_rows hourly) = []
           \<longrightarrow> lines = [ascii ''Tomorrow forecast unavailable'']))
   \<and> (\<forall>lines. build_today_rain_info rt hourly now = Inr lines \<longrightarrow>
      \<not> (\<exists>row\<in>set (rain_rows hourly). rainy_row rt now row) \<longrightarrow> lines = [])
   \<and> (\<forall>lines dates. build_daily_forecast rt daily days = Inr lines
          \<and> d_time daily = Some dates \<longrightarrow>
      (lines = [] \<longleftrightarrow> days \<le> 0 \<or> length dates \<le> 1))"
proof -
  have hourly_part: "lines \<noteq> []
      \<and> (filter (hour_kept rt now for_date) (hourly_rows hourly) = []
           \<longrightarrow> lines = [ascii ''Hourly forecast unavailable''])"
    if "build_hourly_forecast rt hourly now for_date = Inr lines" for lines
  proof -
    from build_hourly_forecast_rows [OF that] obtain out where
      out: "hourly_loop rt now for_date (hourly_rows hourly) [] = Inr out"
        "lines = (if out \<noteq> [] then out else [ascii ''Hourly forecast unavailable''])"
      by blast
    from hourly_loop_lines [OF out(1)]
    have "filter (hour_kept rt now for_date) (hourly_rows hourly) = [] \<Longrightarrow> out = []"
      by simp
    with out(2) show ?thesis by auto
  qed
  have tomorrow_part: "lines \<noteq> []
      \<and> (filter (tomorrow_kept rt tomorrow) (hourly_rows hourly) = []
           \<longrightarrow> lines = [ascii ''Tomorrow forecast unavailable''])"
    if "build_tomorrow_forecast rt hourly tomorrow = Inr lines" for lines
  proof -
    from build_tomorrow_forecast_rows [OF that] obtain out where
      out: "tomorrow_loop rt tomorrow (hourly_rows hourly) [] = Inr out"
        "lines = (if out \<noteq> [] then out else [ascii ''Tomorrow forecast unavailable''])"
      by blast
    from tomorrow_loop_length [OF out(1)]
    have "filter (tomorrow_kept rt tomorrow) (hourly_rows hourly) = [] \<Longrightarrow> out = []"
      by simp
    with out(2) show ?thesis by auto
  qed
  have rain_part: "lines = []"
    if "build_today_rain_info rt hourly now = Inr lines"
      and "\<not> (\<exists>row\<in>set (rain_rows hourly). rainy_row rt now row)" for lines
    using rain_block_iff [OF that(1)] that(2) by simp
  have daily_part: "lines = [] \<longleftrightarrow> days \<le> 0 \<or> length dates \<le> 1"
    if "build_daily_forecast rt daily days = Inr lines \<and> d_time daily = Some dates"
    for lines dates
  proof -
    from that build_daily_forecast_rows [of rt daily days lines]
    obtain max_temps min_temps codes where
      loop: "daily_loop rt dates max_temps min_temps codes
               (py_range 1 (min (days + 1) (int (length dates)))) [] = Inr lines"
      by auto
    from daily_loop_lines [OF loop]
    have "length lines = length (py_range 1 (min (days + 1) (int (length dates))))"
      by (metis append_Nil length_map list.simps(8))
    then have "int (length lines) = max 0 (min days (int (length dates) - 1))"
      using py_range_length [of days "int (length dates)"] by simp
    then show ?thesis by auto
  qed
  from hourly_part tomorrow_part rain_part daily_part show ?thesis by blast
qed

theorem builders_placeholder_witness:
  "build_hourly_forecast example_runtime example_hourly example_late (date_of example_late)
     = Inr [ascii ''Hourly forecast unavailable'']
   \<and> filter (hour_kept example_runtime example_late (date_of example_late))
        (hourly_rows example_hourly) = []
   \<and> build_tomorrow_forecast example_runtime example_hourly (2024, 5, 3)
     = Inr [ascii ''Tomorrow forecast unavailable'']
   \<and> filter (tomorrow_kept example_runtime (2024, 5, 3)) (hourly_rows example_hourly) = []
   \<and> build_today_rain_info example_runtime example_hourly example_late = Inr []
   \<and> \<not> list_ex (rainy_row example_runtime example_late) (rain_rows example_hourly)
   \<and> build_daily_forecast example_runtime today_only_daily 5 = Inr []
   \<and> d_time today_only_daily = Some [ascii ''2024-05-01'']
   \<and> length [ascii ''2024-05-01''] \<le> 1"
proof -
  note claim = builders_placeholder
    [of example_runtime example_hourly example_late "date_of example_late" "(2024, 5, 3)"
        today_only_daily 5]
  have no_rain:
    "\<not> (\<exists>row\<in>set (rain_rows example_hourly). rainy_row example_runtime example_late row)"
    using example_kept_none(3) by (simp add: list_ex_iff)
  have dates: "d_time today_only_daily = Some [ascii ''2024-05-01'']"
    by (simp add: today_only_daily_def)
  from claim [THEN conjunct1, THEN spec, THEN mp, OF example_hourly_late]
  have "[ascii ''Hourly forecast unavailable''] \<noteq> ([]::pystr list)" by simp
  moreover
  from claim [THEN conjunct2, THEN conjunct1, THEN spec, THEN mp, OF example_tomorrow_none]
  have "[ascii ''Tomorrow forecast unavailable''] \<noteq> ([]::pystr list)" by simp
  moreover
  from claim [THEN conjunct2, THEN conjunct2, THEN conjunct1, THEN spec, THEN mp,
              OF example_rain_late] no_rain
  have "([]::pystr list) = []" by simp
  moreover
  from claim [THEN conjunct2, THEN conjunct2, THEN conjunct2, THEN spec, THEN spec, THEN mp,
              OF conjI [OF today_only_daily_lines dates]]
  have "([]::pystr list) = [] \<longleftrightarrow> (5::int) \<le> 0 \<or> length [ascii ''2024-05-01''] \<le> 1"
    by simp
  ultimately show ?thesis
    using example_hourly_late example_kept_none example_tomorrow_none example_rain_late
      today_only_daily_lines dates
    by simp
qed

text \<open>
  On a daily payload that holds today only, the multi-day builder returns the empty
  sequence: it has no placeholder line.
\<close>

theorem builders_nonempty_counterexample:
  "build_daily_forecast example_runtime today_only_daily 5 = Inr []"
  by (rule today_only_daily_lines)

section \<open>Locator\<close>



section \<open>Fetcher: the fallback output\<close>

lemma fail_text:
  "fail msg
   = Exited
       (ascii ''{'' @ [34] @ ascii ''text'' @ [34] @ ascii '': '' @ [34] @ ascii ''N/A'' @ [34]
        @ ascii '', '' @ [34] @ ascii ''tooltip'' @ [34] @ ascii '': '' @ [34]
        @ ascii ''<span foreground='' @ [39] @ ascii ''#f4b8e4'' @ [39] @ ascii ''>''
        @ concat (map (json_escape_char True) msg)
        @ ascii ''</span>'' @ [34] @ ascii ''}'' @ [10])
       0"
proof -
  have a: "json_string True (ascii ''text'') = [34] @ ascii ''text'' @ [34]"
    "json_string True (ascii ''N/A'') = [34] @ ascii ''N/A'' @ [34]"
    "json_string True (ascii ''tooltip'') = [34] @ ascii ''tooltip'' @ [34]"
    by (simp_all add: json_string_def json_escape_char_def ascii_def)
  have open_tag: "concat (map (json_escape_char True)
                    (ascii ''<span foreground='' @ [39] @ FG_HEADER @ [39] @ ascii ''>''))
                  = ascii ''<span foreground='' @ [39] @ ascii ''#f4b8e4'' @ [39] @ ascii ''>''"
    by (simp add: json_escape_char_def ascii_def FG_HEADER_def)
  have close_tag: "concat (map (json_escape_char True) (ascii ''</span>'')) = ascii ''</span>''"
    by (simp add: json_escape_char_def ascii_def)
  have tip: "json_string True (span_fg FG_HEADER msg)
             = [34] @ ascii ''<span foreground='' @ [39] @ ascii ''#f4b8e4'' @ [39] @ ascii ''>''
               @ concat (map (json_escape_char True) msg) @ ascii ''</span>'' @ [34]"
    unfolding span_fg_def json_string_def
    using open_tag close_tag by simp
  show ?thesis
    unfolding fail_def json_dumps_def
    by (simp add: a tip)
qed

text \<open>
  Claim C1. When the forecast fetch fails (the request raises, the status is an error, or
  the body is not JSON), the run prints the JSON object with the two keys \<open>text\<close> and
  \<open>tooltip\<close>, and no key \<open>markup\<close>: the text \<open>N/A\<close> and the span in the heading colour around
  \<open>Failed to fetch weather: \<close> and the text of the exception (in the printed line, escaped
  as JSON requires). The exit status is 0.
\<close>

theorem fetch_failure_output:
  assumes "get_location_by_ip w = (lat, lon, location_name)"
    and "open_meteo w (build_api_url rt lat lon) = Inl reason
         \<or> (\<exists>r. open_meteo w (build_api_url rt lat lon) = Inr r
                \<and> status_error r = Some reason)
         \<or> (\<exists>r. open_meteo w (build_api_url rt lat lon) = Inr r
                \<and> status_error r = None \<and> json_body r = Inl reason)"
  shows "main rt w
         = Exited
             (json_dumps True
                [(ascii ''text'', ascii ''N/A''),
                 (ascii ''tooltip'',
                  ascii ''<span foreground='' @ [39] @ ascii ''#f4b8e4'' @ [39] @ ascii ''>''
                  @ ascii ''Failed to fetch weather: '' @ reason @ ascii ''</span>'')]
              @ [10])
             0
       \<and> main rt w
         = Exited
             (ascii ''{'' @ [34] @ ascii ''text'' @ [34] @ ascii '': '' @ [34] @ ascii ''N/A''
              @ [34] @ ascii '', '' @ [34] @ ascii ''tooltip'' @ [34] @ ascii '': '' @ [34]
              @ ascii ''<span foreground='' @ [39] @ ascii ''#f4b8e4'' @ [39] @ ascii ''>''
              @ ascii ''Failed to fetch weather: ''
              @ concat (map (json_escape_char True) reason)
              @ ascii ''</span>'' @ [34] @ ascii ''}'' @ [10])
             0"
proof -
  from assms(2) have "fetch_try w (build_api_url rt lat lon) = Inl reason"
    by (auto simp: fetch_try_def)
  then have "fetch_weather_data w (build_api_url rt lat lon)
             = Inl (fail (ascii ''Failed to fetch weather: '' @ reason))"
    by (simp add: fetch_weather_data_def)
  with assms(1) have run: "main rt w = fail (ascii ''Failed to fetch weather: '' @ reason)"
    by (simp add: main_def Let_def)
  have obj: "fail (ascii ''Failed to fetch weather: '' @ reason)
             = Exited
                 (json_dumps True
                    [(ascii ''text'', ascii ''N/A''),
                     (ascii ''tooltip'',
                      ascii ''<span foreground='' @ [39] @ ascii ''#f4b8e4'' @ [39] @ ascii ''>''
                      @ ascii ''Failed to fetch weather: '' @ reason @ ascii ''</span>'')]
                  @ [10])
                 0"
    by (simp add: fail_def span_fg_def FG_HEADER_def)
  have msg: "concat (map (json_escape_char True) (ascii ''Failed to fetch weather: ''))
             = ascii ''Failed to fetch weather: ''"
    by (simp add: json_escape_char_def ascii_def)
  have printed: "fail (ascii ''Failed to fetch weather: '' @ reason)
         = Exited
             (ascii ''{'' @ [34] @ ascii ''text'' @ [34] @ ascii '': '' @ [34] @ ascii ''N/A''
              @ [34] @ ascii '', '' @ [34] @ ascii ''tooltip'' @ [34] @ ascii '': '' @ [34]
              @ ascii ''<span foreground='' @ [39] @ ascii ''#f4b8e4'' @ [39] @ ascii ''>''
              @ ascii ''Failed to fetch weather: ''
              @ concat (map (json_escape_char True) reason)
              @ ascii ''</span>'' @ [34] @ ascii ''}'' @ [10])
             0"
    unfolding fail_text using msg by simp
  from run obj printed show ?thesis by simp
qed

theorem fetch_failure_output_witness:
  "get_location_by_ip located_world = (PInt 48, PInt 2, ascii ''Your Location'')
   \<and> open_meteo located_world (build_api_url example_runtime (PInt 48) (PInt 2))
       = Inr \<lparr>status_error = Some (ascii ''502 Server Error''),
              json_body = Inl (ascii ''Expecting value'')\<rparr>
   \<and> main example_runtime located_world
       = Exited
           (ascii ''{'' @ [34] @ ascii ''text'' @ [34] @ ascii '': '' @ [34] @ ascii ''N/A''
            @ [34] @ ascii '', '' @ [34] @ ascii ''tooltip'' @ [34] @ ascii '': '' @ [34]
            @ ascii ''<span foreground='' @ [39] @ ascii ''#f4b8e4'' @ [39] @ ascii ''>''
            @ ascii ''Failed to fetch weather: 502 Server Error''
            @ ascii ''</span>'' @ [34] @ ascii ''}'' @ [10])
           0
   \<and> get_location_by_ip offline_world = (PFloat (FNum 0), PFloat (FNum 0), ascii ''Your Location'')
   \<and> open_meteo offline_world (build_api_url example_runtime (PFloat (FNum 0)) (PFloat (FNum 0)))
       = Inl (ascii ''timed out'')
   \<and> main example_runtime offline_world
       = Exited
           (ascii ''{'' @ [34] @ ascii ''text'' @ [34] @ ascii '': '' @ [34] @ ascii ''N/A''
            @ [34] @ ascii '', '' @ [34] @ ascii ''tooltip'' @ [34] @ ascii '': '' @ [34]
            @ ascii ''<span foreground='' @ [39] @ ascii ''#f4b8e4'' @ [39] @ ascii ''>''
            @ ascii ''Failed to fetch weather: timed out''
            @ ascii ''</span>'' @ [34] @ ascii ''}'' @ [10])
           0"
proof -
  have loc: "get_location_by_ip located_world = (PInt 48, PInt 2, ascii ''Your Location'')"
    by (simp add: get_location_by_ip_def location_try_def located_world_def py_strip_def
        is_space_def ascii_def)
  have off: "get_location_by_ip offline_world = (PFloat (FNum 0), PFloat (FNum 0), ascii ''Your Location'')"
    by (simp add: get_location_by_ip_def location_try_def offline_world_def)
  have status: "open_meteo located_world (build_api_url example_runtime (PInt 48) (PInt 2))
       = Inr \<lparr>status_error = Some (ascii ''502 Server Error''),
              json_body = Inl (ascii ''Expecting value'')\<rparr>"
    by (simp add: located_world_def)
  have raised: "open_meteo offline_world (build_api_url example_runtime (PFloat (FNum 0)) (PFloat (FNum 0)))
       = Inl (ascii ''timed out'')"
    by (simp add: offline_world_def)
  have plain: "concat (map (json_escape_char True) (ascii ''502 Server Error''))
               = ascii ''502 Server Error''"
    "concat (map (json_escape_char True) (ascii ''timed out'')) = ascii ''timed out''"
    by (simp_all add: json_escape_char_def ascii_def)
  have a: "main example_runtime located_world
       = Exited
           (ascii ''{'' @ [34] @ ascii ''text'' @ [34] @ ascii '': '' @ [34] @ ascii ''N/A''
            @ [34] @ ascii '', '' @ [34] @ ascii ''tooltip'' @ [34] @ ascii '': '' @ [34]
            @ ascii ''<span foreground='' @ [39] @ ascii ''#f4b8e4'' @ [39] @ ascii ''>''
            @ ascii ''Failed to fetch weather: 502 Server Error''
            @ ascii ''</span>'' @ [34] @ ascii ''}'' @ [10])
           0"
  proof -
    from fetch_failure_output [OF loc, of example_runtime "ascii ''502 Server Error''",
        THEN conjunct2] status
    have "main example_runtime located_world
       = Exited
           (ascii ''{'' @ [34] @ ascii ''text'' @ [34] @ ascii '': '' @ [34] @ ascii ''N/A''
            @ [34] @ ascii '', '' @ [34] @ ascii ''tooltip'' @ [34] @ ascii '': '' @ [34]
            @ ascii ''<span foreground='' @ [39] @ ascii ''#f4b8e4'' @ [39] @ ascii ''>''
            @ ascii ''Failed to fetch weather: '' @ ascii ''502 Server Error''
            @ ascii ''</span>'' @ [34] @ ascii ''}'' @ [10])
           0"
      by (simp add: plain)
    then show ?thesis by (simp add: ascii_def)
  qed
  have b: "main example_runtime offline_world
       = Exited
           (ascii ''{'' @ [34] @ ascii ''text'' @ [34] @ ascii '': '' @ [34] @ ascii ''N/A''
            @ [34] @ ascii '', '' @ [34] @ ascii ''tooltip'' @ [34] @ ascii '': '' @ [34]
            @ ascii ''<span foreground='' @ [39] @ ascii ''#f4b8e4'' @ [39] @ ascii ''>''
            @ ascii ''Failed to fetch weather: timed out''
            @ ascii ''</span>'' @ [34] @ ascii ''}'' @ [10])
           0"
  proof -
    from fetch_failure_output [OF off, of example_runtime "ascii ''timed out''",
        THEN conjunct2] raised
    have "main example_runtime offline_world
       = Exited
           (ascii ''{'' @ [34] @ ascii ''text'' @ [34] @ ascii '': '' @ [34] @ ascii ''N/A''
            @ [34] @ ascii '', '' @ [34] @ ascii ''tooltip'' @ [34] @ ascii '': '' @ [34]
            @ ascii ''<span foreground='' @ [39] @ ascii ''#f4b8e4'' @ [39] @ ascii ''>''
            @ ascii ''Failed to fetch weather: '' @ ascii ''timed out''
            @ ascii ''</span>'' @ [34] @ ascii ''}'' @ [10])
           0"
      by (simp add: plain)
    then show ?thesis by (simp add: ascii_def)
  qed
  from loc status a off raised b show ?thesis by blast
qed

end
